theory Spec2Isabelle
  imports Complex_Main "HOL-Library.Sublist"
begin

section \<open>JavaScript values used by the map widget\<close>

text \<open>
  A JavaScript number is a finite value, NaN or one of the two infinities. Finite
  values are embedded as real numbers: every finite double is one, and the
  program only compares numbers, tests them for zero, subtracts one from a value
  already known to lie between zero and an array length (exact on doubles) and uses
  them as array indices.
\<close>

datatype number = NaN | Finite real | PosInfinity | NegInfinity

text \<open>\<^verbatim>\<open>export type Scalar = number | string | boolean;\<close>\<close>

datatype scalar = Num number | Str string | Bool bool

text \<open>Truthiness of a number: everything but zero and NaN.\<close>

definition num_truthy :: "number \<Rightarrow> bool" where
  "num_truthy n = (n \<noteq> NaN \<and> n \<noteq> Finite 0)"

text \<open>Truthiness of a scalar, as tested by \<^verbatim>\<open>if (x)\<close>.\<close>

fun truthy :: "scalar \<Rightarrow> bool" where
  "truthy (Num n) = num_truthy n"
| "truthy (Str s) = (s \<noteq> [])"
| "truthy (Bool b) = b"

text \<open>The relational operators \<^verbatim>\<open><\<close> and \<^verbatim>\<open><=\<close> on numbers; any comparison with NaN is false.\<close>

fun num_lt :: "number \<Rightarrow> number \<Rightarrow> bool" where
  "num_lt (Finite a) (Finite b) = (a < b)"
| "num_lt (Finite a) PosInfinity = True"
| "num_lt NegInfinity (Finite b) = True"
| "num_lt NegInfinity PosInfinity = True"
| "num_lt _ _ = False"

definition num_le :: "number \<Rightarrow> number \<Rightarrow> bool" where
  "num_le a b = (num_lt a b \<or> (a = b \<and> a \<noteq> NaN))"

text \<open>\<^verbatim>\<open>x - 1\<close>.\<close>

fun num_pred :: "number \<Rightarrow> number" where
  "num_pred (Finite a) = Finite (a - 1)"
| "num_pred n = n"

text \<open>The \<^verbatim>\<open>length\<close> of an array, as a number.\<close>

definition num_length :: "'a list \<Rightarrow> number" where
  "num_length xs = Finite (of_nat (length xs))"

text \<open>
  \<^verbatim>\<open>xs[i]\<close> for an array \<open>xs\<close> and a number \<open>i\<close>: the element when \<open>i\<close> is a
  non-negative integer below the length, \<^verbatim>\<open>undefined\<close> (here \<open>None\<close>) otherwise,
  also for a fractional, negative, infinite or NaN index.
\<close>

fun js_nth :: "'a list \<Rightarrow> number \<Rightarrow> 'a option" where
  "js_nth xs (Finite q) =
     (if q = of_int \<lfloor>q\<rfloor> \<and> 0 \<le> q \<and> nat \<lfloor>q\<rfloor> < length xs then Some (xs ! nat \<lfloor>q\<rfloor>) else None)"
| "js_nth xs _ = None"

text \<open>
  Unary plus and string concatenation \<^verbatim>\<open>'' + v\<close> on a scalar. The conversions between
  strings and numbers are built into the language; they are parameters here
  (\<open>str_num\<close> for a string read as a number, \<open>num_str\<close> for a number printed).
\<close>

fun to_number :: "(string \<Rightarrow> number) \<Rightarrow> scalar \<Rightarrow> number" where
  "to_number str_num (Num n) = n"
| "to_number str_num (Str s) = str_num s"
| "to_number str_num (Bool b) = (if b then Finite 1 else Finite 0)"

fun to_string :: "(number \<Rightarrow> string) \<Rightarrow> scalar \<Rightarrow> string" where
  "to_string num_str (Num n) = num_str n"
| "to_string num_str (Str s) = s"
| "to_string num_str (Bool b) = (if b then ''true'' else ''false'')"


section \<open>The popup template\<close>

text \<open>
  \<^verbatim>\<open>const regexpVars = /\{([_a-zA-z0-9]+)\}/g;\<close>

  The character class holds the underscore, the ranges a-z and 0-9, and the range
  from upper-case A to lower-case z as it is written (code units 65 to 122).
  Strings are lists of characters. The template code only tells the braces, the
  dollar forms and the characters of the class from all other characters, and these
  are ASCII.
\<close>

definition var_char :: "char \<Rightarrow> bool" where
  "var_char c =
     (let n = (of_char c :: nat)
      in n = 95 \<or> (97 \<le> n \<and> n \<le> 122) \<or> (65 \<le> n \<and> n \<le> 122) \<or> (48 \<le> n \<and> n \<le> 57))"

text \<open>
  One attempt of the regular expression at the start of \<open>s\<close>. The class is matched
  greedily; a shorter run never helps, since the character after it would be a
  class character and not the closing brace.
\<close>

definition match_at :: "string \<Rightarrow> string option" where
  "match_at s =
     (case s of
        [] \<Rightarrow> None
      | c # r \<Rightarrow>
          if c = CHR ''{'' then
            (let nm = takeWhile var_char r; rest = dropWhile var_char r
             in if nm \<noteq> [] \<and> rest \<noteq> [] \<and> hd rest = CHR ''}''
                then Some (CHR ''{'' # nm @ ''}'') else None)
          else None)"

text \<open>
  \<^verbatim>\<open>template.match(regexpVars)\<close> with the global flag: all matches from left to right,
  the search resuming after each match, and one character further after a failure.
  (An empty list stands for the \<^verbatim>\<open>null\<close> returned when nothing matches; the caller
  does nothing in that case.)
\<close>

function match_all :: "string \<Rightarrow> string list" where
  "match_all [] = []"
| "match_all (c # s) =
     (case match_at (c # s) of
        Some m \<Rightarrow> m # match_all (drop (length m) (c # s))
      | None \<Rightarrow> match_all s)"
  by pat_completeness auto
termination
  by (relation "measure length")
    (auto simp: match_at_def Let_def split: list.splits if_splits)

record Template =
  tpl_vars :: "(string \<times> string) list"
  tpl_template :: string

text \<open>
  The constructor. \<open>tpl_vars\<close> is the JavaScript \<^verbatim>\<open>Map\<close> from placeholder to variable
  name, kept in insertion order, which is the order \<^verbatim>\<open>forEach\<close> visits it in.
\<close>

definition strip_braces :: "string \<Rightarrow> string" where
  "strip_braces m = filter (\<lambda>c. c \<noteq> CHR ''{'' \<and> c \<noteq> CHR ''}'') m"

definition add_var :: "string \<Rightarrow> (string \<times> string) list \<Rightarrow> (string \<times> string) list" where
  "add_var m vs = (if m \<in> fst ` set vs then vs else vs @ [(m, strip_braces m)])"

definition Template_new :: "string \<Rightarrow> Template" where
  "Template_new t = \<lparr> tpl_vars = fold add_var (match_all t) [], tpl_template = t \<rparr>"

text \<open>
  \<^verbatim>\<open>txt.replace(placeholder, value)\<close> with a string pattern: only the first occurrence
  is replaced, and the replacement text is expanded first: \<^verbatim>\<open>$$\<close> is a dollar sign,
  \<^verbatim>\<open>$&\<close> the matched text, \<^verbatim>\<open>$`\<close> the text before the match and \<^verbatim>\<open>$'\<close> the text after
  it. A string pattern has no capture groups, so any other use of the dollar sign
  stays as it is.
\<close>

fun split_at_first :: "'a list \<Rightarrow> 'a list \<Rightarrow> ('a list \<times> 'a list) option" where
  "split_at_first p [] = (if p = [] then Some ([], []) else None)"
| "split_at_first p (c # s) =
     (if prefix p (c # s) then Some ([], drop (length p) (c # s))
      else map_option (\<lambda>(a, b). (c # a, b)) (split_at_first p s))"

fun get_substitution :: "string \<Rightarrow> string \<Rightarrow> string \<Rightarrow> string \<Rightarrow> string" where
  "get_substitution m b a [] = []"
| "get_substitution m b a [c] = [c]"
| "get_substitution m b a (c # d # r) =
     (if c = CHR ''$'' \<and> d = CHR ''$'' then CHR ''$'' # get_substitution m b a r
      else if c = CHR ''$'' \<and> d = CHR ''&'' then m @ get_substitution m b a r
      else if c = CHR ''$'' \<and> d = CHR 0x60 then b @ get_substitution m b a r
      else if c = CHR ''$'' \<and> d = CHR 0x27 then a @ get_substitution m b a r
      else c # get_substitution m b a (d # r))"

definition replace :: "string \<Rightarrow> string \<Rightarrow> string \<Rightarrow> string" where
  "replace txt p r =
     (case split_at_first p txt of
        None \<Rightarrow> txt
      | Some (b, a) \<Rightarrow> b @ get_substitution p b a r @ a)"

text \<open>
  \<^verbatim>\<open>bind(data)\<close>: one \<^verbatim>\<open>replace\<close> for each recorded placeholder whose variable is a key
  of the record, in the order of \<open>tpl_vars\<close>, each on the text the previous one left.
\<close>

definition bind_step ::
  "(number \<Rightarrow> string) \<Rightarrow> (string \<rightharpoonup> scalar) \<Rightarrow> string \<times> string \<Rightarrow> string \<Rightarrow> string" where
  "bind_step num_str d pv txt =
     (case d (snd pv) of
        Some v \<Rightarrow> replace txt (fst pv) (to_string num_str v)
      | None \<Rightarrow> txt)"

definition bind :: "(number \<Rightarrow> string) \<Rightarrow> Template \<Rightarrow> (string \<rightharpoonup> scalar) \<Rightarrow> string" where
  "bind num_str T d = fold (bind_step num_str d) (tpl_vars T) (tpl_template T)"


section \<open>The data model\<close>

record FranceChoroMapOpts =
  opt_width :: "string option"
  opt_height :: "string option"
  opt_data :: string
  opt_layout :: string
  opt_flavor :: "string option"
  opt_selectorLabel :: "string option"
  opt_defaultOpacity :: "number option"

record ColorPalette =
  cp_name :: "string option"
  cp_label :: "string option"
  cp_colors :: "string list option"
  cp_opacity :: "number option"

record Variable =
  var_color :: string
  var_title :: string
  var_popup :: "string option"
  var_labels :: "string list"

text \<open>
  \<^verbatim>\<open>Record<string, ...>\<close> objects and JavaScript \<^verbatim>\<open>Map\<close>s whose order is never observed
  are finite maps from the key. An object read from JSON has each of its keys as an
  own property, the key \<^verbatim>\<open>__proto__\<close> too, and \<^verbatim>\<open>Object.entries\<close> and a \<^verbatim>\<open>Map\<close> treat
  that key like any other. Writing a key by assignment is different, see
  \<open>legacy_layer\<close>.
\<close>

type_synonym LayerDataAttributes = "string \<rightharpoonup> scalar"

type_synonym LayerData = "string \<rightharpoonup> LayerDataAttributes"

record LayerView =
  lv_data :: LayerData

text \<open>\<^verbatim>\<open>colors: number | string[]\<close>\<close>

datatype colors_field = NColors number | ColorList "string list"

record InputMapData =
  in_data :: "(string \<rightharpoonup> number) option"
  in_colors :: colors_field
  in_labels :: "string list option"
  in_variables :: "Variable list option"
  in_palettes :: "ColorPalette list option"
  in_layout :: string
  in_defaultLayer :: "number option"
  in_layers :: "LayerView list option"
  in_defaultOpacity :: "number option"

record MapData =
  md_variables :: "Variable list"
  md_palettes :: "ColorPalette list"
  md_n_colors :: number
  md_layout :: string
  md_layers :: "LayerView list"
  md_defaultLayer :: number
  md_defaultOpacity :: "number option"

text \<open>
  \<^verbatim>\<open>colorPalettes.palettes\<close> comes from the module \<^verbatim>\<open>./colors\<close>, which holds the named
  colour scales by size. The table is a parameter of everything that reads it.
\<close>

type_synonym palette_table = "string \<rightharpoonup> (number \<rightharpoonup> string list)"

definition get_palette :: "palette_table \<Rightarrow> string \<Rightarrow> number \<Rightarrow> string list option" where
  "get_palette colorPalettes name len =
     (case colorPalettes name of
        None \<Rightarrow> None
      | Some p \<Rightarrow> p len)"


section \<open>DataView\<close>

type_synonym DataRecord = "string \<rightharpoonup> scalar"

record DataView =
  dv_data :: "string \<rightharpoonup> DataRecord"
  dv_variable :: Variable
  dv_popupTemplate :: "Template option"

text \<open>
  \<^verbatim>\<open>colorLabel(index)\<close>. The labels of a variable are an array by its type, so of the
  first test only \<^verbatim>\<open>!index\<close> can hold.
\<close>

definition colorLabel :: "Variable \<Rightarrow> number \<Rightarrow> string option" where
  "colorLabel variable index =
     (if \<not> num_truthy index then None
      else if num_lt (Finite 0) index \<and> num_le index (num_length (var_labels variable))
      then js_nth (var_labels variable) (num_pred index)
      else None)"

definition updateVariable :: "DataView \<Rightarrow> DataView" where
  "updateVariable dv =
     (case var_popup (dv_variable dv) of
        None \<Rightarrow> dv\<lparr>dv_popupTemplate := None\<rparr>
      | Some p \<Rightarrow>
          if p \<noteq> [] then dv\<lparr>dv_popupTemplate := Some (Template_new p)\<rparr>
          else dv\<lparr>dv_popupTemplate := None\<rparr>)"

definition setVariable :: "DataView \<Rightarrow> Variable \<Rightarrow> DataView" where
  "setVariable dv v = updateVariable (dv\<lparr>dv_variable := v\<rparr>)"

text \<open>
  The body of the constructor's loop for one feature: the attributes are copied
  into a \<^verbatim>\<open>Map\<close>, and \<^verbatim>\<open>_label_\<close> is set when the colour attribute is truthy.
\<close>

definition label_attributes ::
  "(string \<Rightarrow> number) \<Rightarrow> Variable \<Rightarrow> LayerDataAttributes \<Rightarrow> DataRecord" where
  "label_attributes str_num variable attributes =
     (case attributes (var_color variable) of
        None \<Rightarrow> attributes
      | Some color \<Rightarrow>
          if truthy color then
            (let color_label = colorLabel variable (to_number str_num color)
             in attributes(''_label_'' \<mapsto> Str (case color_label of Some l \<Rightarrow> l | None \<Rightarrow> [])))
          else attributes)"

definition DataView_new :: "(string \<Rightarrow> number) \<Rightarrow> LayerData \<Rightarrow> Variable \<Rightarrow> DataView" where
  "DataView_new str_num data variable =
     updateVariable
       \<lparr> dv_data = (\<lambda>id. map_option (label_attributes str_num variable) (data id)),
         dv_variable = variable,
         dv_popupTemplate = None \<rparr>"

text \<open>A geographic feature: only its properties are read, and they may be missing.\<close>

record Feature =
  ft_properties :: "(string \<rightharpoonup> scalar) option"

definition getRecord :: "(number \<Rightarrow> string) \<Rightarrow> DataView \<Rightarrow> Feature option \<Rightarrow> DataRecord option" where
  "getRecord num_str dv feature =
     (case feature of
        None \<Rightarrow> None
      | Some f \<Rightarrow>
          (case ft_properties f of
             None \<Rightarrow> None
           | Some props \<Rightarrow>
               (case props ''code'' of
                  None \<Rightarrow> None
                | Some ident \<Rightarrow>
                    if truthy ident then dv_data dv (to_string num_str ident) else None)))"

definition getColorValue ::
  "(number \<Rightarrow> string) \<Rightarrow> (string \<Rightarrow> number) \<Rightarrow> DataView \<Rightarrow> Feature option \<Rightarrow> number option" where
  "getColorValue num_str str_num dv feature =
     (case getRecord num_str dv feature of
        None \<Rightarrow> None
      | Some record \<Rightarrow>
          (case record (var_color (dv_variable dv)) of
             None \<Rightarrow> None
           | Some v \<Rightarrow> Some (to_number str_num v)))"


section \<open>ChoroMap\<close>

text \<open>
  The fields of the widget that its methods read and write. The rendering objects
  (the map, the page element, the layer) belong to the rendering library; of the
  layer only its presence is kept.
\<close>

record ChoroMap =
  cm_opts :: FranceChoroMapOpts
  cm_data :: "MapData option"
  cm_dataView :: "DataView option"
  cm_dataLayerIndex :: number
  cm_variableIndex :: number
  cm_palette :: number
  cm_palettes :: "ColorPalette list"
  cm_layer :: bool

definition ChoroMap_new :: "FranceChoroMapOpts \<Rightarrow> ChoroMap" where
  "ChoroMap_new opts =
     \<lparr> cm_opts = opts, cm_data = None, cm_dataView = None,
       cm_dataLayerIndex = Finite 0, cm_variableIndex = Finite 0,
       cm_palette = Finite 0, cm_palettes = [], cm_layer = False \<rparr>"

text \<open>
  \<^verbatim>\<open>loadLayout\<close> starts one of two requests for \<^verbatim>\<open>opts.layout\<close>; which one is all that
  is modelled of it.
\<close>

datatype layout_request = GetJSON string | FetchGeobuf string

definition loadLayout :: "ChoroMap \<Rightarrow> layout_request" where
  "loadLayout cm =
     (let flavor = (case opt_flavor (cm_opts cm) of None \<Rightarrow> ''geojson'' | Some f \<Rightarrow> f)
      in if flavor = ''geojson'' then GetJSON (opt_layout (cm_opts cm))
         else FetchGeobuf (opt_layout (cm_opts cm)))"

text \<open>
  \<^verbatim>\<open>importData\<close>: the local variables first, then the method.

  The layer of the single-view format is a plain object \<^verbatim>\<open>d = {}\<close> filled by the
  assignments \<^verbatim>\<open>d[id] = { 'c': v }\<close>, one for each entry of \<^verbatim>\<open>input.data\<close>. For the key
  \<^verbatim>\<open>__proto__\<close> the assignment runs the setter that every plain object inherits: the
  value becomes the prototype of \<^verbatim>\<open>d\<close> and no property is added, so the entries of
  \<^verbatim>\<open>d\<close>, which are its own properties, have no record for that key. Every other key
  becomes an own property.
\<close>

definition legacy_layer :: "(string \<rightharpoonup> number) \<Rightarrow> LayerData" where
  "legacy_layer d =
     (\<lambda>id. if id = ''__proto__'' then None else map_option (\<lambda>v. [''c'' \<mapsto> Num v]) (d id))"

definition import_variables :: "InputMapData \<Rightarrow> Variable list" where
  "import_variables input =
     (case in_data input of
        Some d \<Rightarrow>
          [\<lparr> var_color = ''c'', var_title = [], var_popup = None,
             var_labels = (case in_labels input of Some l \<Rightarrow> l | None \<Rightarrow> []) \<rparr>]
      | None \<Rightarrow> (case in_variables input of Some vs \<Rightarrow> vs | None \<Rightarrow> []))"

definition import_layers :: "InputMapData \<Rightarrow> LayerView list" where
  "import_layers input =
     (case in_data input of
        Some d \<Rightarrow> [\<lparr> lv_data = legacy_layer d \<rparr>]
      | None \<Rightarrow> (case in_layers input of Some ls \<Rightarrow> ls | None \<Rightarrow> []))"

definition import_palettes :: "InputMapData \<Rightarrow> ColorPalette list" where
  "import_palettes input =
     (case in_palettes input of
        Some ps \<Rightarrow> ps
      | None \<Rightarrow>
          (case in_colors input of
             ColorList cs \<Rightarrow>
               [\<lparr> cp_name = None, cp_label = None, cp_colors = Some cs, cp_opacity = None \<rparr>]
           | NColors n \<Rightarrow> []))"

definition import_n_colors :: "InputMapData \<Rightarrow> number" where
  "import_n_colors input =
     (case in_colors input of ColorList cs \<Rightarrow> num_length cs | NColors n \<Rightarrow> n)"

definition importData :: "(string \<Rightarrow> number) \<Rightarrow> ChoroMap \<Rightarrow> InputMapData \<Rightarrow> ChoroMap" where
  "importData str_num cm input =
     (let variables = import_variables input;
          layers = import_layers input;
          cm1 = cm\<lparr>cm_palette := Finite 0\<rparr>
      in if layers = [] then cm1
         else if variables = [] then cm1
         else cm1\<lparr>
           cm_data := Some \<lparr> md_variables = variables,
                             md_palettes = import_palettes input,
                             md_n_colors = import_n_colors input,
                             md_layout = in_layout input,
                             md_layers = layers,
                             md_defaultLayer = Finite 0,
                             md_defaultOpacity = in_defaultOpacity input \<rparr>,
           cm_dataLayerIndex := Finite 0,
           cm_variableIndex := Finite 0,
           cm_dataView := Some (DataView_new str_num (lv_data (layers ! 0)) (variables ! 0))\<rparr>)"

text \<open>
  \<^verbatim>\<open>buildPalettes\<close>. The loop body either pushes the definition, pushes it after
  writing the resolved colours into it, or skips it. The definition it writes into
  is the object held by \<^verbatim>\<open>this.data.palettes\<close>, so the first component of the loop
  state collects the definitions as the loop leaves them. The palette list shares
  its entries with that array; the only write to a shared entry gives it colours, so
  an entry of the list never loses them.
\<close>

definition buildPalettes_step ::
  "palette_table \<Rightarrow> number \<Rightarrow> ColorPalette \<Rightarrow>
   ColorPalette list \<times> ColorPalette list \<Rightarrow> ColorPalette list \<times> ColorPalette list" where
  "buildPalettes_step tbl n_colors def st =
     (case cp_colors def of
        Some cs \<Rightarrow> (fst st @ [def], snd st @ [def])
      | None \<Rightarrow>
          (case cp_name def of
             None \<Rightarrow> (fst st @ [def], snd st)
           | Some nm \<Rightarrow>
               if nm \<noteq> [] then
                 (case get_palette tbl nm n_colors of
                    Some cc \<Rightarrow>
                      (fst st @ [def\<lparr>cp_colors := Some cc\<rparr>],
                       snd st @ [def\<lparr>cp_colors := Some cc\<rparr>])
                  | None \<Rightarrow> (fst st @ [def], snd st))
               else (fst st @ [def], snd st)))"

definition buildPalettes :: "palette_table \<Rightarrow> ChoroMap \<Rightarrow> ChoroMap" where
  "buildPalettes tbl cm =
     (case cm_data cm of
        None \<Rightarrow> cm
      | Some md \<Rightarrow>
          (let st = fold (buildPalettes_step tbl (md_n_colors md)) (md_palettes md)
                      ([], cm_palettes cm)
           in cm\<lparr>cm_data := Some (md\<lparr>md_palettes := fst st\<rparr>), cm_palettes := snd st\<rparr>))"

text \<open>\<^verbatim>\<open>draw\<close> creates the layer when data are loaded; the page it builds is not modelled.\<close>

definition draw :: "ChoroMap \<Rightarrow> ChoroMap" where
  "draw cm = (case cm_data cm of None \<Rightarrow> cm | Some md \<Rightarrow> cm\<lparr>cm_layer := True\<rparr>)"

definition getValue ::
  "(number \<Rightarrow> string) \<Rightarrow> (string \<Rightarrow> number) \<Rightarrow> ChoroMap \<Rightarrow> Feature option \<Rightarrow> number option" where
  "getValue num_str str_num cm feature =
     (case cm_dataView cm of
        None \<Rightarrow> None
      | Some dv \<Rightarrow> getColorValue num_str str_num dv feature)"

text \<open>
  \<^verbatim>\<open>updateStyle\<close>. The style it returns for a feature is a record; its colour is
  \<^verbatim>\<open>undefined\<close> (here \<open>None\<close>) when the array lookup finds no element.
  \<open>truthy_or x dflt\<close> is \<open>x\<close> when \<^verbatim>\<open>if (x)\<close> holds and \<open>dflt\<close> otherwise.
\<close>

record PathStyle =
  ps_color :: "string option"
  ps_stroke :: bool
  ps_fillOpacity :: number

definition truthy_or :: "number option \<Rightarrow> number \<Rightarrow> number" where
  "truthy_or x dflt = (case x of None \<Rightarrow> dflt | Some a \<Rightarrow> if num_truthy a then a else dflt)"

definition defaultOpacity :: "ChoroMap \<Rightarrow> number" where
  "defaultOpacity cm =
     truthy_or (case cm_data cm of None \<Rightarrow> None | Some md \<Rightarrow> md_defaultOpacity md)
       (truthy_or (opt_defaultOpacity (cm_opts cm)) (Finite (6 / 10)))"

text \<open>
  The callback given to \<^verbatim>\<open>setStyle\<close>, from the value \<^verbatim>\<open>this.getValue(feature)\<close> on.
  The earlier version of the widget, which reads the value from a map of numbers,
  has the same callback.
\<close>

definition style_color :: "string list \<Rightarrow> number option \<Rightarrow> string option" where
  "style_color colors v =
     (case v of
        None \<Rightarrow> Some ''#EEEEEE''
      | Some x \<Rightarrow>
          if num_le (Finite 1) x \<and> num_le x (num_length colors)
          then js_nth colors (num_pred x)
          else Some ''#EEEEEE'')"

text \<open>
  The result of \<^verbatim>\<open>updateStyle\<close> is the style function it installs on the layer, or
  \<open>None\<close> when it returns before installing one. It changes no field of the widget.
\<close>

definition updateStyle ::
  "(number \<Rightarrow> string) \<Rightarrow> (string \<Rightarrow> number) \<Rightarrow> ChoroMap \<Rightarrow> (Feature option \<Rightarrow> PathStyle) option" where
  "updateStyle num_str str_num cm =
     (if cm_data cm = None \<or> cm_dataView cm = None then None
      else if \<not> cm_layer cm then None
      else
        (case js_nth (cm_palettes cm) (cm_palette cm) of
           None \<Rightarrow> None
         | Some p \<Rightarrow>
             (case cp_colors p of
                None \<Rightarrow> None
              | Some colors \<Rightarrow>
                  (let fillOpacity = truthy_or (cp_opacity p) (defaultOpacity cm)
                   in Some (\<lambda>feature.
                        \<lparr> ps_color = style_color colors (getValue num_str str_num cm feature),
                          ps_stroke = False,
                          ps_fillOpacity = fillOpacity \<rparr>)))))"

text \<open>
  \<^verbatim>\<open>selectVariable(index)\<close>. When the index passes the range test but is no array
  index, \<^verbatim>\<open>setVariable\<close> receives \<^verbatim>\<open>undefined\<close> and reading its \<^verbatim>\<open>popup\<close> throws.
  The final call of \<^verbatim>\<open>updateStyle\<close> changes no field of the widget.
\<close>

datatype error = TypeError

definition selectVariable :: "ChoroMap \<Rightarrow> number \<Rightarrow> error + ChoroMap" where
  "selectVariable cm index =
     (case cm_data cm of
        None \<Rightarrow> Inr cm
      | Some md \<Rightarrow>
          (case cm_dataView cm of
             None \<Rightarrow> Inr cm
           | Some dv \<Rightarrow>
               if num_le (Finite 0) index \<and> num_le index (num_pred (num_length (md_variables md)))
               then
                 (case js_nth (md_variables md) index of
                    None \<Rightarrow> Inl TypeError
                  | Some v \<Rightarrow>
                      Inr (cm\<lparr>cm_variableIndex := index, cm_dataView := Some (setVariable dv v)\<rparr>))
               else Inr cm))"

text \<open>The handler of the palette selector stores the chosen index.\<close>

definition selectPalette :: "ChoroMap \<Rightarrow> number \<Rightarrow> ChoroMap" where
  "selectPalette cm n = cm\<lparr>cm_palette := n\<rparr>"


section \<open>Notions used to state the properties\<close>

text \<open>
  A string that the regular expression matches as a whole: an opening brace, one
  or more characters of the class, a closing brace.
\<close>

definition is_placeholder :: "string \<Rightarrow> bool" where
  "is_placeholder m =
     (case m of
        [] \<Rightarrow> False
      | c # r \<Rightarrow> c = CHR ''{'' \<and> r \<noteq> [] \<and> last r = CHR ''}'' \<and> butlast r \<noteq> []
                 \<and> list_all var_char (butlast r))"

text \<open>The number of positions of \<open>s\<close> at which \<open>p\<close> occurs.\<close>

fun occurrences :: "'a list \<Rightarrow> 'a list \<Rightarrow> nat" where
  "occurrences p [] = 0"
| "occurrences p (c # s) = (if prefix p (c # s) then 1 else 0) + occurrences p s"

text \<open>
  A palette definition that \<^verbatim>\<open>buildPalettes\<close> can use: it carries colours, or it has
  a non-empty name, the table has an entry \<open>sizes\<close> for that name, and \<open>sizes\<close> has
  colours at the size \<open>n\<close>. \<open>resolved_palette\<close> is the entry it stands for: itself, or
  itself with the colours \<open>sizes n\<close>. Both read the table directly.
\<close>

definition usable_palette :: "palette_table \<Rightarrow> number \<Rightarrow> ColorPalette \<Rightarrow> bool" where
  "usable_palette tbl n def =
     (case cp_colors def of
        Some cs \<Rightarrow> True
      | None \<Rightarrow>
          (case cp_name def of
             None \<Rightarrow> False
           | Some nm \<Rightarrow>
               nm \<noteq> [] \<and> (case tbl nm of None \<Rightarrow> False | Some sizes \<Rightarrow> sizes n \<noteq> None)))"

definition resolved_palette :: "palette_table \<Rightarrow> number \<Rightarrow> ColorPalette \<Rightarrow> ColorPalette" where
  "resolved_palette tbl n def =
     (case cp_colors def of
        Some cs \<Rightarrow> def
      | None \<Rightarrow>
          (case cp_name def of
             None \<Rightarrow> def
           | Some nm \<Rightarrow>
               (case tbl nm of
                  None \<Rightarrow> def
                | Some sizes \<Rightarrow> def\<lparr>cp_colors := sizes n\<rparr>)))"

text \<open>The invariant of the palette list: every entry has its colours.\<close>

definition palettes_inv :: "ChoroMap \<Rightarrow> bool" where
  "palettes_inv cm = list_all (\<lambda>p. cp_colors p \<noteq> None) (cm_palettes cm)"

text \<open>
  The states of a widget: it is constructed, and then its methods and the handler of
  the palette selector run in any order and with any arguments.
\<close>

inductive reachable :: "palette_table \<Rightarrow> (string \<Rightarrow> number) \<Rightarrow> ChoroMap \<Rightarrow> bool"
  for tbl :: palette_table and str_num :: "string \<Rightarrow> number" where
  constructed: "reachable tbl str_num (ChoroMap_new opts)"
| imported: "reachable tbl str_num cm \<Longrightarrow> reachable tbl str_num (importData str_num cm input)"
| built: "reachable tbl str_num cm \<Longrightarrow> reachable tbl str_num (buildPalettes tbl cm)"
| drawn: "reachable tbl str_num cm \<Longrightarrow> reachable tbl str_num (draw cm)"
| variable_selected:
    "reachable tbl str_num cm \<Longrightarrow> selectVariable cm i = Inr cm' \<Longrightarrow> reachable tbl str_num cm'"
| palette_selected: "reachable tbl str_num cm \<Longrightarrow> reachable tbl str_num (selectPalette cm n)"

text \<open>
  The colour that the style function installed by \<^verbatim>\<open>updateStyle\<close> gives a feature:
  \<open>None\<close> when no style function is installed, \<open>Some None\<close> when the colour is
  \<^verbatim>\<open>undefined\<close>.
\<close>

definition feature_color ::
  "(number \<Rightarrow> string) \<Rightarrow> (string \<Rightarrow> number) \<Rightarrow> ChoroMap \<Rightarrow> Feature option \<Rightarrow> string option option" where
  "feature_color num_str str_num cm feature =
     map_option (\<lambda>f. ps_color (f feature)) (updateStyle num_str str_num cm)"


section \<open>A sample widget\<close>

text \<open>
  A widget loaded from data in the single-view format, with one feature \<^verbatim>\<open>01\<close> of
  colour value \<open>v\<close>, two colours and two labels. No named palette is known, no string
  reads as a number, and every number prints as \<^verbatim>\<open>n\<close>; none of this matters to the
  sample, whose values are numbers and whose feature code is a string.
\<close>

definition sample_opts :: FranceChoroMapOpts where
  "sample_opts =
     \<lparr> opt_width = None, opt_height = None, opt_data = ''data.json'',
       opt_layout = ''layout.json'', opt_flavor = None, opt_selectorLabel = None,
       opt_defaultOpacity = None \<rparr>"

definition sample_input :: "number \<Rightarrow> InputMapData" where
  "sample_input v =
     \<lparr> in_data = Some [''01'' \<mapsto> v],
       in_colors = ColorList [''#111111'', ''#222222''],
       in_labels = Some [''low'', ''high''],
       in_variables = None, in_palettes = None, in_layout = ''layout.json'',
       in_defaultLayer = None, in_layers = None, in_defaultOpacity = None \<rparr>"

definition sample_table :: palette_table where
  "sample_table name = None"

definition sample_str_num :: "string \<Rightarrow> number" where
  "sample_str_num s = NaN"

definition sample_num_str :: "number \<Rightarrow> string" where
  "sample_num_str n = ''n''"

definition sample_map :: "number \<Rightarrow> ChoroMap" where
  "sample_map v =
     draw (buildPalettes sample_table
       (importData sample_str_num (ChoroMap_new sample_opts) (sample_input v)))"

definition sample_feature :: "Feature option" where
  "sample_feature = Some \<lparr> ft_properties = Some [''code'' \<mapsto> Str ''01''] \<rparr>"


section \<open>The regular expression and the placeholders of a template\<close>

lemma var_char_braces: "\<not> var_char CHR ''{''" "\<not> var_char CHR ''}''"
  by (simp_all add: var_char_def)

lemma is_placeholder_iff:
  "is_placeholder m \<longleftrightarrow> (\<exists>nm. m = CHR ''{'' # nm @ ''}'' \<and> nm \<noteq> [] \<and> (\<forall>c\<in>set nm. var_char c))"
proof
  assume "is_placeholder m"
  then obtain r where m: "m = CHR ''{'' # r" and r: "r \<noteq> []" "last r = CHR ''}''"
    "butlast r \<noteq> []" "list_all var_char (butlast r)"
    by (auto simp: is_placeholder_def split: list.splits)
  from r(1,2) have "r = butlast r @ ''}''"
    by (metis append_butlast_last_id)
  with m r show "\<exists>nm. m = CHR ''{'' # nm @ ''}'' \<and> nm \<noteq> [] \<and> (\<forall>c\<in>set nm. var_char c)"
    by (metis list_all_iff)
next
  assume "\<exists>nm. m = CHR ''{'' # nm @ ''}'' \<and> nm \<noteq> [] \<and> (\<forall>c\<in>set nm. var_char c)"
  then show "is_placeholder m"
    by (auto simp: is_placeholder_def list_all_iff)
qed

lemma match_at_placeholder:
  assumes "is_placeholder m"
  shows "match_at (m @ b) = Some m"
proof -
  from assms obtain nm where m: "m = CHR ''{'' # nm @ ''}''" and nm: "nm \<noteq> []"
    and vc: "\<forall>c\<in>set nm. var_char c"
    by (auto simp: is_placeholder_iff)
  have tw: "takeWhile var_char (nm @ CHR ''}'' # b) = nm"
    using vc var_char_braces by (simp add: takeWhile_append2 del: takeWhile_append)
  have dw: "dropWhile var_char (nm @ CHR ''}'' # b) = CHR ''}'' # b"
    using vc var_char_braces by (simp add: dropWhile_append2)
  show ?thesis
    using nm by (simp add: match_at_def m tw dw var_char_braces)
qed

lemma match_at_Some:
  assumes "match_at s = Some m"
  shows "is_placeholder m \<and> prefix m s"
proof -
  from assms obtain r where s: "s = CHR ''{'' # r"
    by (auto simp: match_at_def split: list.splits if_splits)
  let ?nm = "takeWhile var_char r" and ?rest = "dropWhile var_char r"
  from assms s have m: "m = CHR ''{'' # ?nm @ ''}''" and nm: "?nm \<noteq> []"
    and rest: "?rest \<noteq> []" "hd ?rest = CHR ''}''"
    by (auto simp: match_at_def Let_def split: if_splits)
  have "\<forall>c\<in>set ?nm. var_char c"
    by (meson set_takeWhileD)
  with m nm have "is_placeholder m"
    unfolding is_placeholder_iff by blast
  moreover
  from rest obtain t where "?rest = CHR ''}'' # t" by (cases ?rest) auto
  then have "r = ?nm @ CHR ''}'' # t"
    by (metis takeWhile_dropWhile_id)
  then have "s = m @ t" using s m by simp
  then have "prefix m s" by simp
  ultimately show ?thesis by simp
qed


lemma placeholder_shape:
  assumes "is_placeholder m"
  shows "\<exists>r. m = CHR ''{'' # r \<and> r \<noteq> [] \<and> CHR ''{'' \<notin> set r"
proof -
  from assms obtain nm where m: "m = CHR ''{'' # nm @ ''}''" and vc: "\<forall>c\<in>set nm. var_char c"
    by (auto simp: is_placeholder_iff)
  from vc var_char_braces(1) have "CHR ''{'' \<notin> set nm" by blast
  then have "CHR ''{'' \<notin> set (nm @ ''}'')" by simp
  with m show ?thesis by blast
qed

lemma placeholder_split:
  assumes p: "is_placeholder p" and eq: "p = a @ us" and a: "a \<noteq> []" and us: "us \<noteq> []"
  shows "hd us \<noteq> CHR ''{''"
proof -
  from placeholder_shape [OF p] obtain r where r: "p = CHR ''{'' # r" "CHR ''{'' \<notin> set r"
    by blast
  from a obtain c a' where a': "a = c # a'" by (cases a) auto
  with eq r have "r = a' @ us" by simp
  with us have "hd us \<in> set r" by simp
  with r(2) show ?thesis by metis
qed

lemma placeholder_prefix_eq:
  assumes p: "is_placeholder p" and q: "is_placeholder q" and pre: "prefix p (q @ b)"
  shows "p = q"
proof -
  from pre obtain t where "q @ b = p @ t" by (auto simp: prefix_def)
  then have "match_at (q @ b) = match_at (p @ t)" by simp
  then show ?thesis
    by (simp add: match_at_placeholder [OF p] match_at_placeholder [OF q])
qed

lemma match_all_sound:
  "m \<in> set (match_all s) \<Longrightarrow> is_placeholder m \<and> sublist m s"
proof (induction s rule: match_all.induct)
  case 1
  then show ?case by simp
next
  case (2 c s)
  show ?case
  proof (cases "match_at (c # s)")
    case None
    with 2 have "is_placeholder m \<and> sublist m s" by simp
    then show ?thesis by (simp add: sublist_Cons_right)
  next
    case (Some m')
    with "2.prems" have "m = m' \<or> m \<in> set (match_all (drop (length m') (c # s)))"
      by simp
    then show ?thesis
    proof
      assume "m = m'"
      with match_at_Some [OF Some] show ?thesis
        by (simp add: prefix_imp_sublist)
    next
      assume "m \<in> set (match_all (drop (length m') (c # s)))"
      with "2.IH"(2) [OF Some] have "is_placeholder m" "sublist m (drop (length m') (c # s))"
        by simp_all
      moreover have "sublist (drop (length m') (c # s)) (c # s)"
        by (rule sublist_drop)
      ultimately show ?thesis
        by (meson sublist_order.order_trans)
    qed
  qed
qed

lemma match_all_complete:
  assumes m: "is_placeholder m"
  shows "s = a @ m @ b \<Longrightarrow> m \<in> set (match_all s)"
proof (induction s arbitrary: a rule: match_all.induct)
  case 1
  with placeholder_shape [OF m] show ?case by auto
next
  case (2 c s)
  show ?case
  proof (cases "match_at (c # s)")
    case None
    show ?thesis
    proof (cases a)
      case Nil
      with "2.prems" match_at_placeholder [OF m, of b] None show ?thesis by simp
    next
      case (Cons c' a')
      with "2.prems" have "s = a' @ m @ b" by simp
      from "2.IH"(1) [OF None this] None show ?thesis by simp
    qed
  next
    case (Some m')
    from match_at_Some [OF Some] have pm': "is_placeholder m'" and "prefix m' (c # s)"
      by simp_all
    then obtain t where t: "c # s = m' @ t" by (auto simp: prefix_def)
    with "2.prems" have eq: "a @ (m @ b) = m' @ t" by simp
    have "\<exists>us. (a = m' @ us \<and> us @ (m @ b) = t) \<or> (a @ us = m' \<and> m @ b = us @ t \<and> us \<noteq> [])"
    proof -
      from eq obtain us where
        d: "(a = m' @ us \<and> us @ (m @ b) = t) \<or> (a @ us = m' \<and> m @ b = us @ t)"
        unfolding append_eq_append_conv2 by blast
      show ?thesis
      proof (cases "us = []")
        case True
        with d have "a = m' @ [] \<and> [] @ (m @ b) = t" by auto
        then show ?thesis by blast
      next
        case False
        with d show ?thesis by blast
      qed
    qed
    then consider us where "a = m' @ us" "us @ (m @ b) = t"
      | us where "a @ us = m'" "m @ b = us @ t" "us \<noteq> []"
      by blast
    then show ?thesis
    proof cases
      case 1
      with t have "drop (length m') (c # s) = us @ m @ b" by simp
      from "2.IH"(2) [OF Some this] Some show ?thesis by simp
    next
      case 2
      from placeholder_shape [OF m] obtain r where "m = CHR ''{'' # r" by blast
      with 2 have hd: "hd us = CHR ''{''" by (cases us) auto
      show ?thesis
      proof (cases a)
        case Nil
        with "2.prems" have "match_at (c # s) = match_at (m @ b)" by simp
        with match_at_placeholder [OF m, of b] Some have "m' = m" by simp
        moreover have "match_all (c # s) = m' # match_all (drop (length m') (c # s))"
          using Some by simp
        ultimately show ?thesis by simp
      next
        case (Cons c' a')
        then have "a \<noteq> []" by simp
        from placeholder_split [OF pm' 2(1) [symmetric] this 2(3)] hd show ?thesis by simp
      qed
    qed
  qed
qed

lemma set_match_all: "set (match_all t) = {m. sublist m t \<and> is_placeholder m}"
proof (intro set_eqI iffI)
  fix m assume "m \<in> set (match_all t)"
  with match_all_sound show "m \<in> {m. sublist m t \<and> is_placeholder m}" by simp
next
  fix m assume "m \<in> {m. sublist m t \<and> is_placeholder m}"
  then obtain a b where "t = a @ m @ b" "is_placeholder m"
    by (auto simp: sublist_def)
  with match_all_complete show "m \<in> set (match_all t)" by blast
qed

lemma fold_add_var_keys: "fst ` set (fold add_var ms vs) = fst ` set vs \<union> set ms"
  by (induction ms arbitrary: vs) (auto simp: add_var_def)

lemma fold_add_var_distinct:
  "distinct (map fst vs) \<Longrightarrow> distinct (map fst (fold add_var ms vs))"
  by (induction ms arbitrary: vs) (auto simp: add_var_def)

lemma fold_add_var_values:
  "\<forall>pv\<in>set vs. snd pv = strip_braces (fst pv) \<Longrightarrow>
   \<forall>pv\<in>set (fold add_var ms vs). snd pv = strip_braces (fst pv)"
proof (induction ms arbitrary: vs)
  case Nil
  then show ?case by simp
next
  case (Cons m ms)
  from Cons.prems have "\<forall>pv\<in>set (add_var m vs). snd pv = strip_braces (fst pv)"
    by (simp add: add_var_def)
  from Cons.IH [OF this] show ?case by simp
qed

lemma strip_braces_placeholder:
  "is_placeholder m \<Longrightarrow> m = CHR ''{'' # strip_braces m @ ''}''"
proof -
  assume "is_placeholder m"
  then obtain nm where m: "m = CHR ''{'' # nm @ ''}''" and vc: "\<forall>c\<in>set nm. var_char c"
    by (auto simp: is_placeholder_iff)
  from vc var_char_braces have "filter (\<lambda>c. c \<noteq> CHR ''{'' \<and> c \<noteq> CHR ''}'') nm = nm"
    by (auto simp: filter_id_conv)
  with m show ?thesis by (simp add: strip_braces_def)
qed

text \<open>
  Claim C3. The constructor keeps the template text and records as placeholders
  exactly the strings that occur in the template and match the regular expression
  as a whole; no placeholder is recorded twice; and the variable name stored with a
  placeholder is the placeholder with every opening and closing brace deleted.
\<close>

theorem Template_new_placeholders:
  "tpl_template (Template_new t) = t
   \<and> distinct (map fst (tpl_vars (Template_new t)))
   \<and> fst ` set (tpl_vars (Template_new t)) = {m. sublist m t \<and> is_placeholder m}
   \<and> (\<forall>pv\<in>set (tpl_vars (Template_new t)).
        snd pv = filter (\<lambda>c. c \<noteq> CHR ''{'' \<and> c \<noteq> CHR ''}'') (fst pv))"
  using fold_add_var_values [of "[]" "match_all t"]
  by (simp add: Template_new_def fold_add_var_distinct fold_add_var_keys set_match_all
        strip_braces_def)

theorem Template_new_placeholders_witness:
  "tpl_vars (Template_new ''{b}-{a}-{b}'') = [(''{b}'', ''b''), (''{a}'', ''a'')]
   \<and> ''{a}'' \<in> {m. sublist m ''{b}-{a}-{b}'' \<and> is_placeholder m}"
  using Template_new_placeholders [of "''{b}-{a}-{b}''"]
  by (simp add: Template_new_def match_at_def var_char_def add_var_def strip_braces_def
        is_placeholder_def sublist_Cons_right)


section \<open>Occurrences of a placeholder and replacement\<close>

lemma occurrences_append_le:
  "occurrences p a + occurrences p b \<le> occurrences p (a @ b)"
proof (induction a)
  case Nil
  then show ?case by simp
next
  case (Cons c a)
  have "prefix p (c # a) \<Longrightarrow> prefix p (c # a @ b)"
    by (metis append_Cons prefix_prefix)
  with Cons show ?case by simp
qed

lemma occurrences_no_start:
  assumes "p \<noteq> []" "hd p \<notin> set xs"
  shows "occurrences p (xs @ b) = occurrences p b"
  using assms(2)
proof (induction xs)
  case Nil
  then show ?case by simp
next
  case (Cons c xs)
  have "\<not> prefix p (c # xs @ b)"
  proof
    assume "prefix p (c # xs @ b)"
    with assms(1) have "hd p = c" by (cases p) auto
    with Cons.prems show False by simp
  qed
  with Cons show ?case by simp
qed

lemma placeholder_prefix_append:
  assumes p: "is_placeholder p" and q: "is_placeholder q"
  shows "prefix p ((c # a) @ q @ b) \<longleftrightarrow> prefix p (c # a)"
proof
  assume "prefix p (c # a)"
  then show "prefix p ((c # a) @ q @ b)" by (rule prefix_prefix)
next
  assume "prefix p ((c # a) @ q @ b)"
  then consider "prefix p (c # a)" | us where "p = (c # a) @ us" "prefix us (q @ b)"
    unfolding prefix_append by blast
  then show "prefix p (c # a)"
  proof cases
    case 1
    then show ?thesis .
  next
    case 2
    show ?thesis
    proof (cases "us = []")
      case True
      with 2 show ?thesis by simp
    next
      case False
      from placeholder_shape [OF q] obtain r where "q = CHR ''{'' # r" by blast
      with 2(2) False have "hd us = CHR ''{''" by (cases us) auto
      with placeholder_split [OF p 2(1) _ False] show ?thesis by simp
    qed
  qed
qed

lemma occurrences_placeholder:
  assumes p: "is_placeholder p" and q: "is_placeholder q"
  shows "occurrences p (a @ q @ b) = occurrences p a + (if p = q then 1 else 0) + occurrences p b"
proof (induction a)
  case Nil
  from placeholder_shape [OF q] obtain r where r: "q = CHR ''{'' # r" "CHR ''{'' \<notin> set r"
    by blast
  from placeholder_shape [OF p] have hp: "p \<noteq> []" "hd p = CHR ''{''" by auto
  have "prefix p (q @ b) \<longleftrightarrow> p = q"
    using placeholder_prefix_eq [OF p q] by auto
  moreover have "occurrences p (r @ b) = occurrences p b"
    using occurrences_no_start [OF hp(1)] hp(2) r(2) by simp
  ultimately show ?case using r(1) by simp
next
  case (Cons c a)
  from placeholder_prefix_append [OF p q, of c a b] Cons show ?case by simp
qed

lemma split_at_first_Some:
  "split_at_first p s = Some (a, b) \<Longrightarrow> s = a @ p @ b"
proof (induction s arbitrary: a)
  case Nil
  then show ?case by (simp split: if_splits)
next
  case (Cons c s)
  show ?case
  proof (cases "prefix p (c # s)")
    case True
    with Cons.prems have "a = []" "b = drop (length p) (c # s)" by simp_all
    with True show ?thesis by (metis append_Nil prefix_def append_eq_conv_conj)
  next
    case False
    with Cons.prems obtain a' where "split_at_first p s = Some (a', b)" "a = c # a'"
      by auto
    with Cons.IH show ?thesis by simp
  qed
qed

lemma split_at_first_first:
  assumes "\<not> sublist p (a @ butlast p)"
  shows "split_at_first p (a @ p @ b) = Some (a, b)"
  using assms
proof (induction a)
  case Nil
  then have "p \<noteq> []" by auto
  then show ?case by (cases p) simp_all
next
  case (Cons c a)
  have np: "\<not> prefix p (c # a @ p @ b)"
  proof
    assume pre: "prefix p (c # a @ p @ b)"
    from Cons.prems have "p \<noteq> []" by auto
    then have pb: "butlast p @ [last p] = p" by simp
    have "c # a @ p @ b = ((c # a) @ butlast p) @ ([last p] @ b)"
      using pb by (metis append_Cons append_assoc)
    then have 1: "prefix ((c # a) @ butlast p) (c # a @ p @ b)"
      by (metis prefixI)
    have 2: "length p \<le> length ((c # a) @ butlast p)"
      using \<open>p \<noteq> []\<close> by simp
    from prefix_length_prefix [OF pre 1 2] have "prefix p ((c # a) @ butlast p)" .
    then have "sublist p ((c # a) @ butlast p)" by (simp add: prefix_imp_sublist)
    with Cons.prems show False by simp
  qed
  from Cons.prems have "\<not> sublist p (a @ butlast p)"
    by (simp add: sublist_Cons_right)
  from Cons.IH [OF this] np show ?case by simp
qed

lemma replace_occurrences:
  assumes p: "is_placeholder p" and q: "is_placeholder q"
  shows "occurrences p txt \<le> occurrences p (replace txt q r) + (if p = q then 1 else 0)"
proof (cases "split_at_first q txt")
  case None
  then show ?thesis by (simp add: replace_def)
next
  case (Some ab)
  obtain a b where ab: "ab = (a, b)" by (cases ab)
  let ?x = "get_substitution q a b r"
  from split_at_first_Some Some ab have eq: "txt = a @ q @ b" by blast
  have "occurrences p a + occurrences p b \<le> occurrences p a + occurrences p (?x @ b)"
    using occurrences_append_le [of p ?x b] by simp
  also have "\<dots> \<le> occurrences p (a @ ?x @ b)"
    by (rule occurrences_append_le)
  finally have "occurrences p a + occurrences p b \<le> occurrences p (replace txt q r)"
    using Some ab by (simp add: replace_def)
  moreover have "occurrences p txt = occurrences p a + (if p = q then 1 else 0) + occurrences p b"
    using occurrences_placeholder [OF p q, of a b] eq by simp
  ultimately show ?thesis by simp
qed

lemma bind_step_occurrences:
  assumes p: "is_placeholder p" and q: "is_placeholder (fst qv)"
  shows "occurrences p txt \<le> occurrences p (bind_step N d qv txt) + (if p = fst qv then 1 else 0)"
proof (cases "d (snd qv)")
  case None
  then show ?thesis by (simp add: bind_step_def)
next
  case (Some x)
  with replace_occurrences [OF p q, of "txt" "to_string N x"] show ?thesis
    by (simp add: bind_step_def)
qed

lemma fold_bind_step_occurrences:
  assumes p: "is_placeholder p"
  shows "\<forall>qv\<in>set vs. is_placeholder (fst qv) \<Longrightarrow> distinct (map fst vs) \<Longrightarrow>
     occurrences p txt
       \<le> occurrences p (fold (bind_step N d) vs txt) + (if p \<in> fst ` set vs then 1 else 0)"
proof (induction vs arbitrary: "txt")
  case Nil
  then show ?case by simp
next
  case (Cons qv vs)
  let ?txt = "bind_step N d qv txt"
  from Cons.prems have q: "is_placeholder (fst qv)" by simp
  from Cons.prems have
    ih: "occurrences p ?txt
      \<le> occurrences p (fold (bind_step N d) vs ?txt) + (if p \<in> fst ` set vs then 1 else 0)"
    by (intro Cons.IH) simp_all
  from Cons.prems have "p = fst qv \<Longrightarrow> p \<notin> fst ` set vs" by auto
  with bind_step_occurrences [OF p q, of "txt" N d] ih show ?case
    by (auto split: if_splits)
qed

lemma Template_new_keys_placeholders:
  "\<forall>qv\<in>set (tpl_vars (Template_new t)). is_placeholder (fst qv)"
proof
  fix qv assume "qv \<in> set (tpl_vars (Template_new t))"
  then have "fst qv \<in> fst ` set (fold add_var (match_all t) [])"
    by (simp add: Template_new_def)
  then have "fst qv \<in> set (match_all t)"
    by (simp add: fold_add_var_keys)
  then show "is_placeholder (fst qv)"
    by (simp add: set_match_all)
qed

lemma Template_new_keys_distinct: "distinct (map fst (tpl_vars (Template_new t)))"
  by (simp add: Template_new_def fold_add_var_distinct)

lemma occurrences_sublist:
  assumes "p \<noteq> []" "sublist p s"
  shows "1 \<le> occurrences p s"
proof -
  from assms(2) obtain a b where s: "s = a @ p @ b" by (auto simp: sublist_def)
  from assms(1) obtain c r where "p = c # r" by (cases p) auto
  then have "1 \<le> occurrences p (p @ b)" by simp
  also have "\<dots> \<le> occurrences p a + occurrences p (p @ b)" by simp
  also have "\<dots> \<le> occurrences p s" unfolding s by (rule occurrences_append_le)
  finally show ?thesis .
qed

lemma split_at_first_occurs:
  "1 \<le> occurrences p s \<Longrightarrow> \<exists>a b. split_at_first p s = Some (a, b)"
proof (induction s)
  case Nil
  then show ?case by simp
next
  case (Cons c s)
  show ?case
  proof (cases "prefix p (c # s)")
    case True
    then show ?thesis by simp
  next
    case False
    with Cons.prems have "1 \<le> occurrences p s" by simp
    from Cons.IH [OF this] False show ?thesis by auto
  qed
qed

lemma split_at_first_minimal:
  assumes "p \<noteq> []"
  shows "split_at_first p s = Some (a, b) \<Longrightarrow> \<not> sublist p (a @ butlast p)"
proof (induction s arbitrary: a)
  case Nil
  then show ?case using assms by simp
next
  case (Cons c s)
  have short: "\<not> sublist p (butlast p)"
  proof
    assume "sublist p (butlast p)"
    then have "length p \<le> length (butlast p)" by (rule sublist_length_le)
    with assms show False by (cases p rule: rev_cases) simp_all
  qed
  show ?case
  proof (cases "prefix p (c # s)")
    case True
    with Cons.prems have "a = []" by simp
    with short show ?thesis by simp
  next
    case False
    with Cons.prems obtain a' where a': "split_at_first p s = Some (a', b)" "a = c # a'"
      by auto
    from split_at_first_Some [OF a'(1)] have s: "s = a' @ p @ b" .
    from assms have pb: "butlast p @ [last p] = p" by simp
    have "c # s = (c # a' @ butlast p) @ ([last p] @ b)"
      unfolding s using pb by (metis append_Cons append_assoc)
    then have "prefix (c # a' @ butlast p) (c # s)" by (metis prefixI)
    with False have "\<not> prefix p (c # a' @ butlast p)"
      by (meson prefix_order.order_trans)
    with Cons.IH [OF a'(1)] a'(2) show ?thesis
      by (simp add: sublist_Cons_right)
  qed
qed

text \<open>
  Claim C8. Let \<open>p\<close> be a placeholder of the template whose variable is a key of the
  data. When the turn of \<open>p\<close> comes, the text built so far contains \<open>p\<close>; it splits at
  the first occurrence into \<open>a\<close>, \<open>p\<close> and \<open>b\<close>, and only that occurrence is replaced:
  \<open>a\<close> and \<open>b\<close>, which holds every later occurrence, are kept as they are. Over the
  whole of \<open>bind\<close> at most one occurrence of \<open>p\<close> disappears, so a placeholder that
  occurs more than once in the template still occurs in the result.
\<close>

theorem bind_replaces_first_occurrence_only:
  assumes pv: "(p, v) \<in> set (tpl_vars (Template_new t))" and dv: "d v = Some x"
  shows "(\<exists>vs1 vs2 a b.
            tpl_vars (Template_new t) = vs1 @ (p, v) # vs2
          \<and> fold (bind_step N d) vs1 t = a @ p @ b
          \<and> \<not> sublist p (a @ butlast p)
          \<and> bind N (Template_new t) d
              = fold (bind_step N d) vs2 (a @ get_substitution p a b (to_string N x) @ b))
       \<and> occurrences p t \<le> Suc (occurrences p (bind N (Template_new t) d))"
proof
  let ?vars = "tpl_vars (Template_new t)"
  from Template_new_keys_placeholders pv have p: "is_placeholder p" by fastforce
  with placeholder_shape have pne: "p \<noteq> []" by blast
  have all: "\<forall>qv\<in>set ?vars. is_placeholder (fst qv)"
    by (rule Template_new_keys_placeholders)
  have dist: "distinct (map fst ?vars)"
    by (rule Template_new_keys_distinct)
  from pv obtain vs1 vs2 where vars: "?vars = vs1 @ (p, v) # vs2"
    by (meson split_list)
  let ?cur = "fold (bind_step N d) vs1 t"
  from dist vars have notin: "p \<notin> fst ` set vs1" by auto
  from all vars have all1: "\<forall>qv\<in>set vs1. is_placeholder (fst qv)" by simp
  from dist vars have dist1: "distinct (map fst vs1)" by simp
  from pv have "p \<in> fst ` set ?vars" by force
  then have "sublist p t"
    by (simp add: Template_new_def fold_add_var_keys set_match_all)
  from occurrences_sublist [OF pne this] have "1 \<le> occurrences p t" .
  also from fold_bind_step_occurrences [OF p all1 dist1, of t N d] notin
  have "occurrences p t \<le> occurrences p ?cur" by simp
  finally obtain a b where ab: "split_at_first p ?cur = Some (a, b)"
    using split_at_first_occurs by blast
  from split_at_first_Some [OF ab] have cur: "?cur = a @ p @ b" .
  from split_at_first_minimal [OF pne ab] have first: "\<not> sublist p (a @ butlast p)" .
  have "bind N (Template_new t) d = fold (bind_step N d) ?vars t"
    by (simp add: bind_def Template_new_def)
  also have "\<dots> = fold (bind_step N d) vs2 (bind_step N d (p, v) ?cur)"
    unfolding vars by simp
  also have "bind_step N d (p, v) ?cur = a @ get_substitution p a b (to_string N x) @ b"
    using dv ab by (simp add: bind_step_def replace_def)
  finally show "\<exists>vs1 vs2 a b.
            tpl_vars (Template_new t) = vs1 @ (p, v) # vs2
          \<and> fold (bind_step N d) vs1 t = a @ p @ b
          \<and> \<not> sublist p (a @ butlast p)
          \<and> bind N (Template_new t) d
              = fold (bind_step N d) vs2 (a @ get_substitution p a b (to_string N x) @ b)"
    using vars cur first by blast
  from fold_bind_step_occurrences [OF p all dist, of t N d]
  show "occurrences p t \<le> Suc (occurrences p (bind N (Template_new t) d))"
    by (simp add: bind_def Template_new_def split: if_splits)
qed

theorem bind_replaces_first_occurrence_only_witness:
  "(''{a}'', ''a'') \<in> set (tpl_vars (Template_new ''{a} and {a}''))
   \<and> [''a'' \<mapsto> Str ''x''] ''a'' = Some (Str ''x'')
   \<and> bind (\<lambda>n. []) (Template_new ''{a} and {a}'') [''a'' \<mapsto> Str ''x''] = ''x and {a}''
   \<and> occurrences ''{a}'' ''{a} and {a}'' = 2
   \<and> occurrences ''{a}'' (bind (\<lambda>n. []) (Template_new ''{a} and {a}'') [''a'' \<mapsto> Str ''x'']) = 1"
proof -
  have h1: "(''{a}'', ''a'') \<in> set (tpl_vars (Template_new ''{a} and {a}''))"
    by (simp add: Template_new_def match_at_def var_char_def add_var_def strip_braces_def)
  have h2: "[''a'' \<mapsto> Str ''x''] ''a'' = Some (Str ''x'')" by simp
  have ev: "bind (\<lambda>n. []) (Template_new ''{a} and {a}'') [''a'' \<mapsto> Str ''x''] = ''x and {a}''"
    by (simp add: bind_def Template_new_def match_at_def var_char_def add_var_def
          strip_braces_def bind_step_def replace_def)
  from bind_replaces_first_occurrence_only
         [of "''{a}''" "''a''" "''{a} and {a}''" "[''a'' \<mapsto> Str ''x'']" "Str ''x''" "\<lambda>n. []", OF h1 h2]
       h1 h2 ev
  show ?thesis by simp
qed

text \<open>
  Claim C1, at the template \<^verbatim>\<open>{a} {a}\<close> with the record that maps \<open>a\<close> to the string
  \<open>x\<close>: the second occurrence of the placeholder is still there in the result,
  which is not the text \<^verbatim>\<open>x x\<close> with every occurrence replaced.
\<close>

theorem bind_repeated_placeholder:
  "bind num_str (Template_new ''{a} {a}'') [''a'' \<mapsto> Str ''x''] = ''x {a}''"
  by (simp add: bind_def Template_new_def match_at_def var_char_def add_var_def
        strip_braces_def bind_step_def replace_def)


section \<open>Unfolding the model on the sample widget\<close>

lemmas sample_defs = sample_map_def sample_input_def sample_opts_def sample_table_def
  sample_str_num_def sample_num_str_def sample_feature_def

lemmas model_defs = importData_def import_variables_def import_layers_def import_palettes_def
  import_n_colors_def ChoroMap_new_def buildPalettes_def buildPalettes_step_def draw_def
  DataView_new_def updateVariable_def label_attributes_def legacy_layer_def colorLabel_def
  getValue_def getColorValue_def getRecord_def updateStyle_def style_color_def
  feature_color_def defaultOpacity_def truthy_or_def num_length_def num_le_def num_truthy_def
  get_palette_def


section \<open>Loading the layout\<close>

text \<open>
  Claim C7. Which request \<^verbatim>\<open>loadLayout\<close> starts depends on the flavor option alone: the
  JSON request when the flavor is unset or is \<^verbatim>\<open>geojson\<close>, and for every other flavor
  the binary fetch whose buffer the geobuf codec decodes. Both are for the layout URL.
\<close>

theorem loadLayout_flavor:
  "loadLayout cm =
     (if opt_flavor (cm_opts cm) = None \<or> opt_flavor (cm_opts cm) = Some ''geojson''
      then GetJSON (opt_layout (cm_opts cm))
      else FetchGeobuf (opt_layout (cm_opts cm)))"
  by (auto simp: loadLayout_def split: option.splits)

theorem loadLayout_flavor_witness:
  "loadLayout (ChoroMap_new sample_opts) = GetJSON ''layout.json''
   \<and> loadLayout (ChoroMap_new (sample_opts\<lparr>opt_flavor := Some ''geojson''\<rparr>)) = GetJSON ''layout.json''
   \<and> loadLayout (ChoroMap_new (sample_opts\<lparr>opt_flavor := Some ''geobuf''\<rparr>))
       = FetchGeobuf ''layout.json''"
  using loadLayout_flavor [of "ChoroMap_new sample_opts"]
    loadLayout_flavor [of "ChoroMap_new (sample_opts\<lparr>opt_flavor := Some ''geojson''\<rparr>)"]
    loadLayout_flavor [of "ChoroMap_new (sample_opts\<lparr>opt_flavor := Some ''geobuf''\<rparr>)"]
  by (simp add: ChoroMap_new_def sample_opts_def)


section \<open>Building the palettes\<close>

lemma buildPalettes_step_snd:
  "snd (buildPalettes_step tbl n def st) =
     snd st @ (if usable_palette tbl n def then [resolved_palette tbl n def] else [])"
  by (auto simp: buildPalettes_step_def usable_palette_def resolved_palette_def
        get_palette_def split: option.splits)

lemma fold_buildPalettes_step_snd:
  "snd (fold (buildPalettes_step tbl n) defs st) =
     snd st @ map (resolved_palette tbl n) (filter (usable_palette tbl n) defs)"
proof (induction defs arbitrary: st)
  case Nil
  then show ?case by simp
next
  case (Cons def defs)
  show ?case
    by (simp add: Cons.IH buildPalettes_step_snd)
qed

text \<open>
  Claim C5. Without loaded data \<^verbatim>\<open>buildPalettes\<close> changes nothing. With loaded data
  \<open>md\<close> it appends to the palette list, in the order of the definitions, one entry for
  every usable definition and nothing for the others. A definition that carries
  colours is usable and its entry is the definition itself. A definition without
  colours is usable exactly when it has a non-empty name for which the table has an
  entry \<open>sizes\<close> with colours at the size \<open>n_colors\<close> of the data, and its entry is the
  definition with the colours \<open>sizes n_colors\<close>.
\<close>

theorem buildPalettes_appends:
  "(cm_data cm = None \<longrightarrow> buildPalettes tbl cm = cm)
   \<and> (\<forall>md. cm_data cm = Some md \<longrightarrow>
         cm_palettes (buildPalettes tbl cm) =
           cm_palettes cm @
             map (resolved_palette tbl (md_n_colors md))
               (filter (usable_palette tbl (md_n_colors md)) (md_palettes md)))
   \<and> (\<forall>cs. cp_colors def = Some cs \<longrightarrow>
         usable_palette tbl n def \<and> resolved_palette tbl n def = def)
   \<and> (\<forall>nm sizes cc.
         cp_colors def = None \<and> cp_name def = Some nm \<and> nm \<noteq> []
           \<and> tbl nm = Some sizes \<and> sizes n = Some cc \<longrightarrow>
         usable_palette tbl n def \<and> resolved_palette tbl n def = def\<lparr>cp_colors := Some cc\<rparr>)
   \<and> (cp_colors def = None
        \<and> (\<forall>nm sizes. cp_name def = Some nm \<and> nm \<noteq> [] \<and> tbl nm = Some sizes
               \<longrightarrow> sizes n = None)
      \<longrightarrow> \<not> usable_palette tbl n def)"
proof -
  have 1: "cm_data cm = None \<longrightarrow> buildPalettes tbl cm = cm"
    by (simp add: buildPalettes_def)
  have 2: "\<forall>md. cm_data cm = Some md \<longrightarrow>
         cm_palettes (buildPalettes tbl cm) =
           cm_palettes cm @
             map (resolved_palette tbl (md_n_colors md))
               (filter (usable_palette tbl (md_n_colors md)) (md_palettes md))"
    by (simp add: buildPalettes_def fold_buildPalettes_step_snd Let_def)
  have 3: "\<forall>cs. cp_colors def = Some cs \<longrightarrow>
         usable_palette tbl n def \<and> resolved_palette tbl n def = def"
    by (simp add: usable_palette_def resolved_palette_def)
  have 4: "\<forall>nm sizes cc.
         cp_colors def = None \<and> cp_name def = Some nm \<and> nm \<noteq> []
           \<and> tbl nm = Some sizes \<and> sizes n = Some cc \<longrightarrow>
         usable_palette tbl n def \<and> resolved_palette tbl n def = def\<lparr>cp_colors := Some cc\<rparr>"
    by (simp add: usable_palette_def resolved_palette_def)
  have 5: "cp_colors def = None
        \<and> (\<forall>nm sizes. cp_name def = Some nm \<and> nm \<noteq> [] \<and> tbl nm = Some sizes
               \<longrightarrow> sizes n = None)
      \<longrightarrow> \<not> usable_palette tbl n def"
    by (auto simp: usable_palette_def split: option.splits)
  from 1 2 3 4 5 show ?thesis by (intro conjI)
qed

theorem buildPalettes_appends_witness:
  "map cp_colors (cm_palettes (buildPalettes
     [''BuPu'' \<mapsto> [Finite 2 \<mapsto> [''#e0ecf4'', ''#8856a7''],
                   Finite 3 \<mapsto> [''#e0ecf4'', ''#9ebcda'', ''#8856a7'']],
      ''Pair'' \<mapsto> [Finite 2 \<mapsto> [''#a6cee3'', ''#1f78b4'']]]
     (importData sample_str_num (ChoroMap_new sample_opts)
        (sample_input (Finite 1)
           \<lparr> in_colors := NColors (Finite 3),
             in_palettes := Some
               [\<lparr> cp_name = Some ''BuPu'', cp_label = None, cp_colors = None, cp_opacity = None \<rparr>,
                \<lparr> cp_name = None, cp_label = None, cp_colors = Some [''red'', ''blue''],
                  cp_opacity = None \<rparr>,
                \<lparr> cp_name = Some ''Pair'', cp_label = None, cp_colors = None, cp_opacity = None \<rparr>,
                \<lparr> cp_name = Some ''Nope'', cp_label = None, cp_colors = None, cp_opacity = None \<rparr>,
                \<lparr> cp_name = None, cp_label = Some ''x'', cp_colors = None, cp_opacity = None \<rparr>]
           \<rparr>))))
   = [Some [''#e0ecf4'', ''#9ebcda'', ''#8856a7''], Some [''red'', ''blue'']]
   \<and> buildPalettes sample_table (ChoroMap_new sample_opts) = ChoroMap_new sample_opts"
proof -
  let ?tbl = "[''BuPu'' \<mapsto> [Finite 2 \<mapsto> [''#e0ecf4'', ''#8856a7''],
                             Finite 3 \<mapsto> [''#e0ecf4'', ''#9ebcda'', ''#8856a7'']],
               ''Pair'' \<mapsto> [Finite 2 \<mapsto> [''#a6cee3'', ''#1f78b4'']]]"
  let ?bupu = "\<lparr> cp_name = Some ''BuPu'', cp_label = None, cp_colors = None, cp_opacity = None \<rparr>"
  let ?expl = "\<lparr> cp_name = None, cp_label = None, cp_colors = Some [''red'', ''blue''],
                 cp_opacity = None \<rparr>"
  let ?pair = "\<lparr> cp_name = Some ''Pair'', cp_label = None, cp_colors = None, cp_opacity = None \<rparr>"
  let ?nope = "\<lparr> cp_name = Some ''Nope'', cp_label = None, cp_colors = None, cp_opacity = None \<rparr>"
  let ?none = "\<lparr> cp_name = None, cp_label = Some ''x'', cp_colors = None, cp_opacity = None \<rparr>"
  let ?cm = "importData sample_str_num (ChoroMap_new sample_opts)
        (sample_input (Finite 1)
           \<lparr> in_colors := NColors (Finite 3),
             in_palettes := Some [?bupu, ?expl, ?pair, ?nope, ?none] \<rparr>)"
  have data: "map_option md_palettes (cm_data ?cm) = Some [?bupu, ?expl, ?pair, ?nope, ?none]"
    "map_option md_n_colors (cm_data ?cm) = Some (Finite 3)" "cm_palettes ?cm = []"
    by (simp_all add: sample_defs model_defs Let_def)
  then obtain md where md: "cm_data ?cm = Some md"
    "md_palettes md = [?bupu, ?expl, ?pair, ?nope, ?none]" "md_n_colors md = Finite 3"
    by auto
  have u1: "usable_palette ?tbl (Finite 3) ?bupu
            \<and> resolved_palette ?tbl (Finite 3) ?bupu
                = ?bupu\<lparr>cp_colors := Some [''#e0ecf4'', ''#9ebcda'', ''#8856a7'']\<rparr>"
    using buildPalettes_appends [of ?cm ?tbl ?bupu "Finite 3"] by simp
  have u2: "usable_palette ?tbl (Finite 3) ?expl \<and> resolved_palette ?tbl (Finite 3) ?expl = ?expl"
    using buildPalettes_appends [of ?cm ?tbl ?expl "Finite 3"] by simp
  have u3: "\<not> usable_palette ?tbl (Finite 3) ?pair"
    using buildPalettes_appends [of ?cm ?tbl ?pair "Finite 3"] by auto
  have u4: "\<not> usable_palette ?tbl (Finite 3) ?nope"
    using buildPalettes_appends [of ?cm ?tbl ?nope "Finite 3"] by auto
  have u5: "\<not> usable_palette ?tbl (Finite 3) ?none"
    using buildPalettes_appends [of ?cm ?tbl ?none "Finite 3"] by simp
  from buildPalettes_appends [of ?cm ?tbl ?bupu "Finite 3"] md data(3)
  have "cm_palettes (buildPalettes ?tbl ?cm) =
          map (resolved_palette ?tbl (Finite 3))
            (filter (usable_palette ?tbl (Finite 3)) [?bupu, ?expl, ?pair, ?nope, ?none])"
    by simp
  with u1 u2 u3 u4 u5 have
    "map cp_colors (cm_palettes (buildPalettes ?tbl ?cm))
       = [Some [''#e0ecf4'', ''#9ebcda'', ''#8856a7''], Some [''red'', ''blue'']]"
    by simp
  moreover from buildPalettes_appends [of "ChoroMap_new sample_opts" sample_table ?none "Finite 3"]
  have "buildPalettes sample_table (ChoroMap_new sample_opts) = ChoroMap_new sample_opts"
    by (simp add: ChoroMap_new_def)
  ultimately show ?thesis by simp
qed


section \<open>The invariant of the palette list\<close>

lemma palettes_inv_buildPalettes:
  assumes "palettes_inv cm"
  shows "palettes_inv (buildPalettes tbl cm)"
proof (cases "cm_data cm")
  case None
  with assms show ?thesis by (simp add: buildPalettes_def)
next
  case (Some md)
  have "\<forall>def\<in>set (filter (usable_palette tbl (md_n_colors md)) (md_palettes md)).
          cp_colors (resolved_palette tbl (md_n_colors md) def) \<noteq> None"
    by (auto simp: usable_palette_def resolved_palette_def split: option.splits)
  with assms Some show ?thesis
    by (auto simp: palettes_inv_def buildPalettes_def Let_def fold_buildPalettes_step_snd
          list_all_iff)
qed

lemma cm_palettes_importData: "cm_palettes (importData S cm input) = cm_palettes cm"
  by (simp add: importData_def Let_def)

lemma cm_palettes_draw: "cm_palettes (draw cm) = cm_palettes cm"
  by (simp add: draw_def split: option.splits)

lemma cm_palettes_selectVariable:
  "selectVariable cm i = Inr cm' \<Longrightarrow> cm_palettes cm' = cm_palettes cm"
  by (auto simp: selectVariable_def split: option.splits if_splits)

lemma reachable_palettes_inv: "reachable tbl S cm \<Longrightarrow> palettes_inv cm"
proof (induction rule: reachable.induct)
  case (constructed opts)
  then show ?case by (simp add: palettes_inv_def ChoroMap_new_def)
next
  case (imported cm input)
  then show ?case by (simp add: palettes_inv_def cm_palettes_importData)
next
  case (built cm)
  from palettes_inv_buildPalettes [OF built.IH] show ?case .
next
  case (drawn cm)
  then show ?case by (simp add: palettes_inv_def cm_palettes_draw)
next
  case (variable_selected cm i cm')
  then show ?case by (simp add: palettes_inv_def cm_palettes_selectVariable)
next
  case (palette_selected cm n)
  then show ?case by (simp add: palettes_inv_def selectPalette_def)
qed

lemma js_nth_in_set: "js_nth xs i = Some x \<Longrightarrow> x \<in> set xs"
  by (cases i) (auto split: if_splits)

text \<open>
  Claim C10. The constructor starts with the empty palette list; \<^verbatim>\<open>buildPalettes\<close>
  keeps the invariant that every entry of the list has its colours; and in every
  state the widget can reach the invariant holds, so the entry that \<^verbatim>\<open>updateStyle\<close>
  selects, when there is one at the current index, has its colours.
\<close>

theorem palettes_have_colors:
  "cm_palettes (ChoroMap_new opts) = []
   \<and> (palettes_inv cm \<longrightarrow> palettes_inv (buildPalettes tbl cm))
   \<and> (reachable tbl S cm \<longrightarrow>
        palettes_inv cm
        \<and> (\<forall>p. js_nth (cm_palettes cm) (cm_palette cm) = Some p \<longrightarrow> cp_colors p \<noteq> None))"
proof (intro conjI impI allI)
  show "cm_palettes (ChoroMap_new opts) = []" by (simp add: ChoroMap_new_def)
next
  assume "palettes_inv cm" then show "palettes_inv (buildPalettes tbl cm)"
    by (rule palettes_inv_buildPalettes)
next
  assume "reachable tbl S cm" then show "palettes_inv cm" by (rule reachable_palettes_inv)
next
  fix p assume r: "reachable tbl S cm" and "js_nth (cm_palettes cm) (cm_palette cm) = Some p"
  then have "p \<in> set (cm_palettes cm)" by (metis js_nth_in_set)
  with reachable_palettes_inv [OF r] show "cp_colors p \<noteq> None"
    by (simp add: palettes_inv_def list_all_iff)
qed

theorem palettes_have_colors_witness:
  "reachable sample_table sample_str_num (sample_map (Finite 2))
   \<and> palettes_inv (sample_map (Finite 2))
   \<and> map_option cp_colors (js_nth (cm_palettes (sample_map (Finite 2))) (cm_palette (sample_map (Finite 2))))
       = Some (Some [''#111111'', ''#222222''])"
proof -
  have r: "reachable sample_table sample_str_num (sample_map (Finite 2))"
    unfolding sample_map_def
    by (intro reachable.drawn reachable.built reachable.imported reachable.constructed)
  have "map_option cp_colors (js_nth (cm_palettes (sample_map (Finite 2))) (cm_palette (sample_map (Finite 2))))
       = Some (Some [''#111111'', ''#222222''])"
    by (simp add: sample_defs model_defs Let_def)
  with r palettes_have_colors [of sample_opts "sample_map (Finite 2)" sample_table sample_str_num]
  show ?thesis by simp
qed


section \<open>Selecting a variable\<close>

lemma num_le_Finite [simp]: "num_le (Finite a) (Finite b) \<longleftrightarrow> a \<le> b"
  by (auto simp: num_le_def)

lemma js_nth_of_int:
  "js_nth xs (Finite (of_int i)) = (if 0 \<le> i \<and> i < int (length xs) then Some (xs ! nat i) else None)"
  by auto

text \<open>
  Claim C6. For an integer index \<open>i\<close>: when data and a data view are loaded and
  \<open>0 \<le> i \<le> length variables - 1\<close>, \<^verbatim>\<open>selectVariable\<close> stores \<open>i\<close> as the current
  variable index and makes the variable at \<open>i\<close> the variable of the data view (the
  records of the view stay as they are); in every other case it returns the widget
  unchanged.
\<close>

theorem selectVariable_integer:
  "selectVariable cm (Finite (of_int i)) =
     (case (cm_data cm, cm_dataView cm) of
        (Some md, Some dv) \<Rightarrow>
          if 0 \<le> i \<and> i \<le> int (length (md_variables md)) - 1
          then Inr (cm\<lparr>cm_variableIndex := Finite (of_int i),
                       cm_dataView := Some (setVariable dv (md_variables md ! nat i))\<rparr>)
          else Inr cm
      | _ \<Rightarrow> Inr cm)
   \<and> dv_variable (setVariable dv' v) = v
   \<and> dv_data (setVariable dv' v) = dv_data dv'"
  by (auto simp: selectVariable_def num_length_def js_nth_of_int setVariable_def
        updateVariable_def simp del: js_nth.simps split: option.splits)

theorem selectVariable_integer_witness:
  "map_sum id cm_variableIndex (selectVariable (sample_map (Finite 2)) (Finite 0)) = Inr (Finite 0)
   \<and> selectVariable (sample_map (Finite 2)) (Finite 1) = Inr (sample_map (Finite 2))
   \<and> selectVariable (sample_map (Finite 2)) (Finite (- 1)) = Inr (sample_map (Finite 2))
   \<and> selectVariable (ChoroMap_new sample_opts) (Finite 0) = Inr (ChoroMap_new sample_opts)"
  using selectVariable_integer [of "sample_map (Finite 2)" 0]
    selectVariable_integer [of "sample_map (Finite 2)" 1]
    selectVariable_integer [of "sample_map (Finite 2)" "- 1"]
    selectVariable_integer [of "ChoroMap_new sample_opts" 0]
  by (simp add: sample_defs model_defs Let_def)


section \<open>The records of a data view\<close>

lemma colorLabel_integer:
  assumes "1 \<le> k" "k \<le> int (length (var_labels V))"
  shows "colorLabel V (Finite (of_int k)) = Some (var_labels V ! nat (k - 1))"
proof -
  have "js_nth (var_labels V) (Finite (of_int (k - 1))) = Some (var_labels V ! nat (k - 1))"
    unfolding js_nth_of_int using assms by simp
  then show ?thesis
    using assms by (simp add: colorLabel_def num_truthy_def num_length_def)
qed

lemma js_nth_Some_integer:
  assumes "js_nth xs x = Some y"
  shows "\<exists>j. x = Finite (of_int j) \<and> 0 \<le> j \<and> j < int (length xs)"
proof (cases x)
  case (Finite q)
  with assms have q: "q = of_int \<lfloor>q\<rfloor>" "0 \<le> q" "nat \<lfloor>q\<rfloor> < length xs"
    by (simp_all split: if_splits)
  from q(2) have "0 \<le> \<lfloor>q\<rfloor>" by simp
  with q Finite show ?thesis by (intro exI [of _ "\<lfloor>q\<rfloor>"]) auto
qed (use assms in simp_all)

lemma colorLabel_other:
  assumes "\<not> (\<exists>k. x = Finite (of_int k) \<and> 1 \<le> k \<and> k \<le> int (length (var_labels V)))"
  shows "colorLabel V x = None"
proof (rule ccontr)
  assume "colorLabel V x \<noteq> None"
  then obtain l where "js_nth (var_labels V) (num_pred x) = Some l"
    by (auto simp: colorLabel_def split: if_splits)
  from js_nth_Some_integer [OF this] obtain j where
    j: "num_pred x = Finite (of_int j)" "0 \<le> j" "j < int (length (var_labels V))" by blast
  from j(1) obtain q where q: "x = Finite q" "q - 1 = of_int j" by (cases x) auto
  then have "q = of_int (j + 1)" by simp
  moreover from assms have
    "\<not> (x = Finite (of_int (j + 1)) \<and> 1 \<le> j + 1 \<and> j + 1 \<le> int (length (var_labels V)))"
    by blast
  ultimately show False using q(1) j(2,3) by simp
qed

text \<open>
  Claim C9. The view built by the constructor has the given variable, and a record
  for exactly the features of the layer. The record of a feature is its attribute
  map when the colour attribute is absent or falsy (zero and \<^verbatim>\<open>false\<close> are falsy).
  When the colour attribute is truthy the record is the attribute map with one more
  entry \<^verbatim>\<open>_label_\<close>: the label at the colour value \<open>k\<close>, counted from one, when the
  value is an integer from 1 to the number of labels, and the empty string for any
  other value, in particular for every value outside that range.
\<close>

theorem DataView_new_labels:
  "dv_variable (DataView_new S data V) = V
   \<and> (data ident = None \<longrightarrow> dv_data (DataView_new S data V) ident = None)
   \<and> (\<forall>attrs. data ident = Some attrs \<longrightarrow>
        (case attrs (var_color V) of
           None \<Rightarrow> dv_data (DataView_new S data V) ident = Some attrs
         | Some c \<Rightarrow>
             if truthy c then
               (\<forall>k. to_number S c = Finite (of_int k) \<and> 1 \<le> k \<and> k \<le> int (length (var_labels V))
                  \<longrightarrow> dv_data (DataView_new S data V) ident
                        = Some (attrs(''_label_'' \<mapsto> Str (var_labels V ! nat (k - 1)))))
               \<and> ((\<nexists>k. to_number S c = Finite (of_int k) \<and> 1 \<le> k
                          \<and> k \<le> int (length (var_labels V)))
                  \<longrightarrow> dv_data (DataView_new S data V) ident = Some (attrs(''_label_'' \<mapsto> Str [])))
             else dv_data (DataView_new S data V) ident = Some attrs))
   \<and> \<not> truthy (Num (Finite 0)) \<and> \<not> truthy (Bool False)"
proof -
  have data: "dv_data (DataView_new S data V) ident = map_option (label_attributes S V) (data ident)"
    by (simp add: DataView_new_def updateVariable_def split: option.splits)
  have var: "dv_variable (DataView_new S data V) = V"
    by (simp add: DataView_new_def updateVariable_def split: option.splits)
  have absent: "dv_data (DataView_new S data V) ident = Some attrs"
    if "data ident = Some attrs" "attrs (var_color V) = None" for attrs
    using that by (simp add: data label_attributes_def)
  have falsy: "dv_data (DataView_new S data V) ident = Some attrs"
    if "data ident = Some attrs" "attrs (var_color V) = Some c" "\<not> truthy c" for attrs c
    using that by (simp add: data label_attributes_def)
  have inside: "dv_data (DataView_new S data V) ident
                  = Some (attrs(''_label_'' \<mapsto> Str (var_labels V ! nat (k - 1))))"
    if "data ident = Some attrs" "attrs (var_color V) = Some c" "truthy c"
      "to_number S c = Finite (of_int k)" "1 \<le> k" "k \<le> int (length (var_labels V))"
    for attrs c k
    using that colorLabel_integer [of k V] by (simp add: data label_attributes_def)
  have outside: "dv_data (DataView_new S data V) ident = Some (attrs(''_label_'' \<mapsto> Str []))"
    if "data ident = Some attrs" "attrs (var_color V) = Some c" "truthy c"
      "\<nexists>k. to_number S c = Finite (of_int k) \<and> 1 \<le> k \<and> k \<le> int (length (var_labels V))"
    for attrs c
    using that colorLabel_other [of "to_number S c" V] by (simp add: data label_attributes_def)
  have cases: "case attrs (var_color V) of
           None \<Rightarrow> dv_data (DataView_new S data V) ident = Some attrs
         | Some c \<Rightarrow>
             if truthy c then
               (\<forall>k. to_number S c = Finite (of_int k) \<and> 1 \<le> k \<and> k \<le> int (length (var_labels V))
                  \<longrightarrow> dv_data (DataView_new S data V) ident
                        = Some (attrs(''_label_'' \<mapsto> Str (var_labels V ! nat (k - 1)))))
               \<and> ((\<nexists>k. to_number S c = Finite (of_int k) \<and> 1 \<le> k
                          \<and> k \<le> int (length (var_labels V)))
                  \<longrightarrow> dv_data (DataView_new S data V) ident = Some (attrs(''_label_'' \<mapsto> Str [])))
             else dv_data (DataView_new S data V) ident = Some attrs"
    if h: "data ident = Some attrs" for attrs
  proof (cases "attrs (var_color V)")
    case None
    with absent [OF h] show ?thesis by simp
  next
    case (Some c)
    show ?thesis
    proof (cases "truthy c")
      case True
      with Some inside [OF h Some True] outside [OF h Some True] show ?thesis by simp
    next
      case False
      with Some falsy [OF h Some False] show ?thesis by simp
    qed
  qed
  have none: "data ident = None \<longrightarrow> dv_data (DataView_new S data V) ident = None"
    by (simp add: data)
  have t: "\<not> truthy (Num (Finite 0)) \<and> \<not> truthy (Bool False)"
    by (simp add: num_truthy_def)
  from var none cases t show ?thesis by blast
qed

theorem DataView_new_labels_witness:
  "dv_data (DataView_new sample_str_num [''01'' \<mapsto> [''c'' \<mapsto> Num (Finite 2)]]
      \<lparr> var_color = ''c'', var_title = [], var_popup = None, var_labels = [''low'', ''high''] \<rparr>) ''01''
     = Some [''c'' \<mapsto> Num (Finite 2), ''_label_'' \<mapsto> Str ''high'']
   \<and> dv_data (DataView_new sample_str_num [''01'' \<mapsto> [''c'' \<mapsto> Num (Finite 3)]]
      \<lparr> var_color = ''c'', var_title = [], var_popup = None, var_labels = [''low'', ''high''] \<rparr>) ''01''
     = Some [''c'' \<mapsto> Num (Finite 3), ''_label_'' \<mapsto> Str []]
   \<and> dv_data (DataView_new sample_str_num [''01'' \<mapsto> [''c'' \<mapsto> Num (Finite 0)]]
      \<lparr> var_color = ''c'', var_title = [], var_popup = None, var_labels = [''low'', ''high''] \<rparr>) ''01''
     = Some [''c'' \<mapsto> Num (Finite 0)]
   \<and> dv_data (DataView_new sample_str_num [''01'' \<mapsto> [''d'' \<mapsto> Num (Finite 1)]]
      \<lparr> var_color = ''c'', var_title = [], var_popup = None, var_labels = [''low'', ''high''] \<rparr>) ''01''
     = Some [''d'' \<mapsto> Num (Finite 1)]
   \<and> dv_data (DataView_new sample_str_num [''01'' \<mapsto> [''c'' \<mapsto> Num (Finite 2)]]
      \<lparr> var_color = ''c'', var_title = [], var_popup = None, var_labels = [''low'', ''high''] \<rparr>) ''02''
     = None"
proof -
  let ?V = "\<lparr> var_color = ''c'', var_title = [], var_popup = None, var_labels = [''low'', ''high''] \<rparr>"
  have two: "to_number sample_str_num (Num (Finite 2)) = Finite (of_int 2)" by simp
  have three: "\<nexists>k. to_number sample_str_num (Num (Finite 3)) = Finite (of_int k) \<and> 1 \<le> k
                    \<and> k \<le> int (length (var_labels ?V))"
    by auto
  from DataView_new_labels [of sample_str_num "[''01'' \<mapsto> [''c'' \<mapsto> Num (Finite 2)]]" ?V "''01''"] two
  have 1: "dv_data (DataView_new sample_str_num [''01'' \<mapsto> [''c'' \<mapsto> Num (Finite 2)]] ?V) ''01''
     = Some [''c'' \<mapsto> Num (Finite 2), ''_label_'' \<mapsto> Str ''high'']"
    by (simp add: num_truthy_def)
  from DataView_new_labels [of sample_str_num "[''01'' \<mapsto> [''c'' \<mapsto> Num (Finite 3)]]" ?V "''01''"] three
  have 2: "dv_data (DataView_new sample_str_num [''01'' \<mapsto> [''c'' \<mapsto> Num (Finite 3)]] ?V) ''01''
     = Some [''c'' \<mapsto> Num (Finite 3), ''_label_'' \<mapsto> Str []]"
    by (simp add: num_truthy_def)
  from DataView_new_labels [of sample_str_num "[''01'' \<mapsto> [''c'' \<mapsto> Num (Finite 0)]]" ?V "''01''"]
  have 3: "dv_data (DataView_new sample_str_num [''01'' \<mapsto> [''c'' \<mapsto> Num (Finite 0)]] ?V) ''01''
     = Some [''c'' \<mapsto> Num (Finite 0)]"
    by (simp add: num_truthy_def)
  from DataView_new_labels [of sample_str_num "[''01'' \<mapsto> [''d'' \<mapsto> Num (Finite 1)]]" ?V "''01''"]
  have 4: "dv_data (DataView_new sample_str_num [''01'' \<mapsto> [''d'' \<mapsto> Num (Finite 1)]] ?V) ''01''
     = Some [''d'' \<mapsto> Num (Finite 1)]"
    by simp
  from DataView_new_labels [of sample_str_num "[''01'' \<mapsto> [''c'' \<mapsto> Num (Finite 2)]]" ?V "''02''"]
  have 5: "dv_data (DataView_new sample_str_num [''01'' \<mapsto> [''c'' \<mapsto> Num (Finite 2)]] ?V) ''02''
     = None"
    by simp
  from 1 2 3 4 5 show ?thesis by simp
qed


section \<open>Importing the data\<close>

lemma importData_records:
  "(\<forall>d. in_data input = Some d \<longrightarrow>
      map_option md_variables (cm_data (importData S cm input))
        = Some [\<lparr> var_color = ''c'', var_title = [], var_popup = None,
                   var_labels = (case in_labels input of None \<Rightarrow> [] | Some l \<Rightarrow> l) \<rparr>]
      \<and> map_option md_layers (cm_data (importData S cm input))
        = Some [\<lparr> lv_data = (\<lambda>ident. if ident = ''__proto__'' then None
                                    else case d ident of None \<Rightarrow> None
                                         | Some v \<Rightarrow> Some [''c'' \<mapsto> Num v]) \<rparr>])
   \<and> (in_data input = None \<longrightarrow>
        import_variables input = (case in_variables input of None \<Rightarrow> [] | Some vs \<Rightarrow> vs)
      \<and> import_layers input = (case in_layers input of None \<Rightarrow> [] | Some ls \<Rightarrow> ls)
      \<and> (if import_variables input = [] \<or> import_layers input = []
         then cm_data (importData S cm input) = cm_data cm
         else map_option md_variables (cm_data (importData S cm input))
                = Some (import_variables input)
            \<and> map_option md_layers (cm_data (importData S cm input))
                = Some (import_layers input)))"
proof -
  have "legacy_layer d = (\<lambda>ident. if ident = ''__proto__'' then None
                             else case d ident of None \<Rightarrow> None | Some v \<Rightarrow> Some [''c'' \<mapsto> Num v])"
    for d
    by (auto simp: legacy_layer_def fun_eq_iff split: option.splits)
  then show ?thesis
    by (auto simp: importData_def import_variables_def import_layers_def Let_def
          split: option.splits)
qed

lemma importData_records_sample:
  "in_data (sample_input (Finite 2)) = Some [''01'' \<mapsto> Finite 2]
   \<and> map_option (\<lambda>md. map var_labels (md_variables md))
        (cm_data (importData sample_str_num (ChoroMap_new sample_opts) (sample_input (Finite 2))))
      = Some [[''low'', ''high'']]
   \<and> map_option (\<lambda>md. map (\<lambda>l. lv_data l ''01'') (md_layers md))
        (cm_data (importData sample_str_num (ChoroMap_new sample_opts) (sample_input (Finite 2))))
      = Some [Some [''c'' \<mapsto> Num (Finite 2)]]
   \<and> in_data (sample_input (Finite 2)\<lparr>in_data := None\<rparr>) = None
   \<and> cm_data (importData sample_str_num (ChoroMap_new sample_opts)
        (sample_input (Finite 2)\<lparr>in_data := None\<rparr>)) = None"
  using importData_records [of "sample_input (Finite 2)" sample_str_num "ChoroMap_new sample_opts"]
    importData_records [of "sample_input (Finite 2)\<lparr>in_data := None\<rparr>" sample_str_num
      "ChoroMap_new sample_opts"]
  by (simp add: sample_defs model_defs Let_def)

text \<open>
  Claim C2, at the input in the single-view format whose \<^verbatim>\<open>data\<close> is
  \<^verbatim>\<open>{"__proto__": 1}\<close>: the input has a number for the feature code \<^verbatim>\<open>__proto__\<close>, and
  the one layer that \<^verbatim>\<open>importData\<close> stores has no record for that code, nor has the
  data view. The same feature given in the layered format, as a layer whose data are
  \<^verbatim>\<open>{"__proto__": {"c": 1}}\<close> with a variable of colour attribute \<^verbatim>\<open>c\<close>, keeps its
  record in the data view.
\<close>

theorem importData_proto_key:
  "in_data (sample_input (Finite 1)\<lparr>in_data := Some [''__proto__'' \<mapsto> Finite 1]\<rparr>)
     = Some [''__proto__'' \<mapsto> Finite 1]
   \<and> map_option (\<lambda>md. map (\<lambda>l. lv_data l ''__proto__'') (md_layers md))
        (cm_data (importData sample_str_num (ChoroMap_new sample_opts)
           (sample_input (Finite 1)\<lparr>in_data := Some [''__proto__'' \<mapsto> Finite 1]\<rparr>)))
      = Some [None]
   \<and> map_option (\<lambda>dv. dv_data dv ''__proto__'')
        (cm_dataView (importData sample_str_num (ChoroMap_new sample_opts)
           (sample_input (Finite 1)\<lparr>in_data := Some [''__proto__'' \<mapsto> Finite 1]\<rparr>)))
      = Some None
   \<and> map_option (\<lambda>dv. dv_data dv ''__proto__'')
        (cm_dataView (importData sample_str_num (ChoroMap_new sample_opts)
           (sample_input (Finite 1)
              \<lparr> in_data := None,
                in_variables := Some [\<lparr> var_color = ''c'', var_title = [], var_popup = None,
                                         var_labels = [''low'', ''high''] \<rparr>],
                in_layers := Some [\<lparr> lv_data = [''__proto__'' \<mapsto> [''c'' \<mapsto> Num (Finite 1)]] \<rparr>]
              \<rparr>)))
      = Some (Some [''c'' \<mapsto> Num (Finite 1), ''_label_'' \<mapsto> Str ''low''])"
  by (simp add: sample_defs model_defs Let_def)


section \<open>The fill colour of a feature\<close>

lemma style_color_integer:
  assumes "1 \<le> k" "k \<le> int (length colors)"
  shows "nat (k - 1) < length colors
         \<and> style_color colors (Some (Finite (of_int k))) = Some (colors ! nat (k - 1))"
proof -
  have "js_nth colors (Finite (of_int (k - 1))) = Some (colors ! nat (k - 1))"
    unfolding js_nth_of_int using assms by simp
  then show ?thesis
    using assms by (simp add: style_color_def num_length_def)
qed

lemma sample_map_style:
  "updateStyle sample_num_str sample_str_num (sample_map v)
     = Some (\<lambda>feature.
         \<lparr> ps_color = style_color [''#111111'', ''#222222'']
             (getValue sample_num_str sample_str_num (sample_map v) feature),
           ps_stroke = False, ps_fillOpacity = Finite (6 / 10) \<rparr>)"
  by (simp add: sample_defs model_defs Let_def)

text \<open>
  Claim C4, amended. Let \<^verbatim>\<open>updateStyle\<close> install a style function, with \<open>colors\<close> the
  colours of the selected palette, and let \<open>v\<close> be the colour value of a feature. When
  \<open>v\<close> is undefined, or is not between 1 and the number of colours (zero, negative,
  NaN, too large, whole or fractional), the colour is the default \<^verbatim>\<open>#EEEEEE\<close>. When \<open>v\<close>
  is an integer \<open>k\<close> between 1 and the number of colours, the index \<open>k - 1\<close> is in bounds
  and the colour is the element there.
\<close>

theorem updateStyle_fill_color:
  assumes f: "updateStyle N S cm = Some f"
    and p: "js_nth (cm_palettes cm) (cm_palette cm) = Some p"
    and c: "cp_colors p = Some colors"
  shows "(getValue N S cm feature = None \<longrightarrow> ps_color (f feature) = Some ''#EEEEEE'')
       \<and> (\<forall>x. getValue N S cm feature = Some x
                \<and> \<not> (num_le (Finite 1) x \<and> num_le x (num_length colors))
              \<longrightarrow> ps_color (f feature) = Some ''#EEEEEE'')
       \<and> (\<forall>k. getValue N S cm feature = Some (Finite (of_int k))
                \<and> 1 \<le> k \<and> k \<le> int (length colors)
              \<longrightarrow> nat (k - 1) < length colors
                  \<and> ps_color (f feature) = Some (colors ! nat (k - 1)))"
proof -
  from f p c have col: "ps_color (f feature) = style_color colors (getValue N S cm feature)"
    by (auto simp: updateStyle_def Let_def split: if_splits)
  have 1: "getValue N S cm feature = None \<longrightarrow> ps_color (f feature) = Some ''#EEEEEE''"
    by (simp add: col style_color_def)
  have 2: "\<forall>x. getValue N S cm feature = Some x
                  \<and> \<not> (num_le (Finite 1) x \<and> num_le x (num_length colors))
                \<longrightarrow> ps_color (f feature) = Some ''#EEEEEE''"
    by (auto simp: col style_color_def)
  have 3: "\<forall>k. getValue N S cm feature = Some (Finite (of_int k))
                  \<and> 1 \<le> k \<and> k \<le> int (length colors)
                \<longrightarrow> nat (k - 1) < length colors
                    \<and> ps_color (f feature) = Some (colors ! nat (k - 1))"
    using style_color_integer [of _ colors] by (simp add: col)
  from 1 2 3 show ?thesis by (intro conjI)
qed

theorem updateStyle_fill_color_witness:
  "feature_color sample_num_str sample_str_num (sample_map (Finite 2)) sample_feature
     = Some (Some ''#222222'')
   \<and> feature_color sample_num_str sample_str_num (sample_map (Finite 3)) sample_feature
     = Some (Some ''#EEEEEE'')
   \<and> feature_color sample_num_str sample_str_num (sample_map (Finite 2)) None
     = Some (Some ''#EEEEEE'')"
proof -
  let ?p = "\<lparr> cp_name = None, cp_label = None, cp_colors = Some [''#111111'', ''#222222''],
              cp_opacity = None \<rparr>"
  have p: "js_nth (cm_palettes (sample_map v)) (cm_palette (sample_map v)) = Some ?p" for v
    by (simp add: sample_defs model_defs Let_def)
  have c: "cp_colors ?p = Some [''#111111'', ''#222222'']" by simp
  have v2: "getValue sample_num_str sample_str_num (sample_map (Finite 2)) sample_feature
              = Some (Finite (of_int 2))"
    by (simp add: sample_defs model_defs Let_def)
  have v3: "getValue sample_num_str sample_str_num (sample_map (Finite 3)) sample_feature
              = Some (Finite 3)"
    by (simp add: sample_defs model_defs Let_def)
  have v0: "getValue sample_num_str sample_str_num (sample_map (Finite 2)) None = None"
    by (simp add: sample_defs model_defs Let_def)
  from updateStyle_fill_color [OF sample_map_style p c, of "Finite 2" sample_feature] v2
  have "feature_color sample_num_str sample_str_num (sample_map (Finite 2)) sample_feature
          = Some (Some ''#222222'')"
    by (simp add: feature_color_def sample_map_style)
  moreover
  from updateStyle_fill_color [OF sample_map_style p c, of "Finite 3" sample_feature] v3
  have "feature_color sample_num_str sample_str_num (sample_map (Finite 3)) sample_feature
          = Some (Some ''#EEEEEE'')"
    by (simp add: feature_color_def sample_map_style num_length_def)
  moreover
  from updateStyle_fill_color [OF sample_map_style p c, of "Finite 2" None] v0
  have "feature_color sample_num_str sample_str_num (sample_map (Finite 2)) None
          = Some (Some ''#EEEEEE'')"
    by (simp add: feature_color_def sample_map_style)
  ultimately show ?thesis by simp
qed

text \<open>
  Claim C4 as stated fails for a fractional value inside the range. In the sample
  widget with colour value 3/2 and two colours the range test passes, the lookup at
  index 1/2 finds no element, and the colour of the feature is \<^verbatim>\<open>undefined\<close>.
\<close>

theorem updateStyle_fill_color_fractional:
  "getValue sample_num_str sample_str_num (sample_map (Finite (3 / 2))) sample_feature
     = Some (Finite (3 / 2))
   \<and> num_le (Finite 1) (Finite (3 / 2))
   \<and> num_le (Finite (3 / 2)) (num_length [''#111111'', ''#222222''])
   \<and> map_option cp_colors (js_nth (cm_palettes (sample_map (Finite (3 / 2))))
        (cm_palette (sample_map (Finite (3 / 2))))) = Some (Some [''#111111'', ''#222222''])
   \<and> feature_color sample_num_str sample_str_num (sample_map (Finite (3 / 2))) sample_feature
     = Some None"
  by (simp add: sample_defs model_defs Let_def)

end
